theory Spec2Isabelle
  imports Main
begin

section \<open>create-expo-module: the scaffolding command\<close>

text \<open>
  A shallow embedding of \<^verbatim>\<open>packages/create-expo-module/build/create-expo-module.js\<close>
  (and its TypeScript source, which is the same program). The command asks for a slug and
  for substitution data, acquires a template tree, renders every template file (its path
  and its content) with \<^verbatim>\<open>ejs\<close> and writes the result under the target directory.

  Strings are \<^typ>\<open>string\<close>. Every operation of the program on strings that matters here
  looks at the ASCII characters \<^verbatim>\<open>$ . / { } % < >\<close> only, so reading a character as a byte
  of the UTF-8 text or as a UTF-16 code unit gives the same result.
\<close>

subsection \<open>Results of asynchronous functions, the outside world\<close>

text \<open>
  An \<^verbatim>\<open>async\<close> function of the program either returns, or the process is ended by
  \<^verbatim>\<open>process.exit(n)\<close>, or its promise is rejected by an error of a library call.
\<close>

datatype error =
    TemplateError string
  | NoSuchFile string
  | StepFailed string

datatype 'a result =
    Returned 'a
  | Exited nat
  | Thrown error

text \<open>What the \<^verbatim>\<open>prompts\<close> library hands back: the answer, or the user cancelled.\<close>

datatype 'a prompted = Answered 'a | Cancelled

datatype prompt_kind = SlugPrompt | ConfirmPrompt | SubstitutionPrompts

text \<open>
  A directory as \<^verbatim>\<open>readdir\<close> and \<^verbatim>\<open>lstat\<close> show it: the entries in the order
  \<^verbatim>\<open>readdir\<close> lists them; an entry for which \<^verbatim>\<open>isDirectory()\<close> is false is a
  \<open>File\<close> with the text \<^verbatim>\<open>readFile\<close> returns.
\<close>

datatype node = File string | Dir "(string \<times> node) list"

type_synonym entries = "(string \<times> node) list"

text \<open>The effects of the program on the outside, in the order they happen.\<close>

datatype event =
    Prompted prompt_kind
  | EnsureDir string
  | Readdir string
  | ConsoleLog string
  | Step string
  | StepSucceeded string
  | NpmView string
  | DownloadTarball string string
  | OutputFile string string
  | InstallDependencies string string
  | SpawnBuild string string
  | Removed string
  | CreateExampleApp string string

text \<open>
  The state the program changes, one file system seen in two ways: \<open>files\<close> are the files
  written (by destination path, with their text), \<open>dirs\<close> the directories the run reads as
  templates (by path, each with its tree as it is now), \<open>log\<close> the effects so far. A file written
  or removed beneath one of these directories is written into or removed from its tree, so a
  later listing or read of the directory sees it. Paths are compared as the strings
  \<^verbatim>\<open>path.join\<close> returns.
\<close>

record world =
  files :: "string \<rightharpoonup> string"
  dirs :: "string \<rightharpoonup> entries"
  log :: "event list"

type_synonym 'a io = "world \<Rightarrow> 'a result \<times> world"

definition io_return :: "'a \<Rightarrow> 'a io" where
  "io_return a w = (Returned a, w)"

definition io_exit :: "nat \<Rightarrow> 'a io" where
  "io_exit n w = (Exited n, w)"

definition io_throw :: "error \<Rightarrow> 'a io" where
  "io_throw e w = (Thrown e, w)"

text \<open>\<^verbatim>\<open>await m; f\<close>: an exit or a rejection of \<open>m\<close> ends the run there.\<close>

definition io_bind :: "'a io \<Rightarrow> ('a \<Rightarrow> 'b io) \<Rightarrow> 'b io" where
  "io_bind m f w =
     (case m w of
        (Returned a, w') \<Rightarrow> f a w'
      | (Exited n, w') \<Rightarrow> (Exited n, w')
      | (Thrown e, w') \<Rightarrow> (Thrown e, w'))"

definition emit :: "event \<Rightarrow> unit io" where
  "emit ev w = (Returned (), w\<lparr>log := log w @ [ev]\<rparr>)"

definition io_of_failure :: "error option \<Rightarrow> unit io" where
  "io_of_failure r = (case r of None \<Rightarrow> io_return () | Some e \<Rightarrow> io_throw e)"

definition io_of_sum :: "error + 'a \<Rightarrow> 'a io" where
  "io_of_sum r = (case r of Inl e \<Rightarrow> io_throw e | Inr a \<Rightarrow> io_return a)"

subsection \<open>Substitution data\<close>

record Project =
  slug :: string
  name :: string
  version :: string
  description :: string
  package :: string

record SubstitutionData =
  project :: Project
  author :: string
  license :: string
  repo :: string

text \<open>The answers object that \<^verbatim>\<open>askForSubstitutionDataAsync\<close> destructures.\<close>

record Answers =
  name :: string
  description :: string
  package :: string
  authorName :: string
  authorEmail :: string
  authorUrl :: string
  repo :: string

text \<open>
  What the outside answers to the program. \<open>CWD\<close> is the value of
  \<^verbatim>\<open>process.env.INIT_CWD || process.cwd()\<close> and \<open>EXPO_BETA\<close> that of
  \<^verbatim>\<open>boolish('EXPO_BETA', false)\<close>. The user answers or cancels each prompt. \<open>readdir_result\<close>
  is the listing of a directory when \<open>confirmTargetDirAsync\<close> reads it, before the run has
  written anything. The modules \<^verbatim>\<open>./prompts\<close>, \<^verbatim>\<open>./resolvePackageManager\<close>,
  \<^verbatim>\<open>./packageManager\<close> and \<^verbatim>\<open>./createExampleApp\<close> are not among the sources, and
  \<^verbatim>\<open>npm\<close>, the download and the build are outside the program: what each returns, or the
  error it fails with, is a field here.
\<close>

record env =
  CWD :: string
  EXPO_BETA :: bool
  slug_answer :: "string prompted"
  ensureDir_failure :: "string \<Rightarrow> error option"
  readdir_result :: "string \<Rightarrow> error + string list"
  confirm_answer :: "bool prompted"
  getSubstitutionDataPrompts_failure :: "error option"
  substitution_answers :: "Answers prompted"
  resolvePackageManager_result :: "error + string"
  npm_view_result :: "string \<Rightarrow> error + string"
  downloadTarball_result :: "string \<Rightarrow> error + entries"
  installDependencies_failure :: "error option"
  build_failure :: "error option"
  createExampleApp_failure :: "error option"

subsection \<open>Strings and paths\<close>

text \<open>
  JavaScript's test \<^verbatim>\<open>x ? a : b\<close> and \<^verbatim>\<open>x || y\<close> on a value that is a string,
  \<^verbatim>\<open>null\<close> or \<^verbatim>\<open>undefined\<close>: the empty string counts as absent.
\<close>

definition truthy :: "string option \<Rightarrow> bool" where
  "truthy x = (case x of None \<Rightarrow> False | Some s \<Rightarrow> s \<noteq> [])"

text \<open>\<^verbatim>\<open>x || y\<close>\<close>

definition or_else :: "string option \<Rightarrow> string \<Rightarrow> string" where
  "or_else x y = (case x of None \<Rightarrow> y | Some s \<Rightarrow> if s \<noteq> [] then s else y)"

text \<open>
  \<^verbatim>\<open>s.replace(c, r)\<close> with a one-character string pattern \<open>c\<close>: JavaScript replaces the
  first occurrence only (the replacement texts used here contain no \<^verbatim>\<open>$\<close> pattern).
\<close>

fun replace_first :: "char \<Rightarrow> string \<Rightarrow> string \<Rightarrow> string" where
  "replace_first c r [] = []"
| "replace_first c r (x # xs) = (if x = c then r @ xs else x # replace_first c r xs)"

text \<open>\<^verbatim>\<open>file.replace(/^\$/, '')\<close>: one \<^verbatim>\<open>$\<close> at the very start of the string is removed.\<close>

fun strip_dollar :: "string \<Rightarrow> string" where
  "strip_dollar [] = []"
| "strip_dollar (x # xs) = (if x = CHR ''$'' then xs else x # xs)"

text \<open>\<^verbatim>\<open>s.trim()\<close>, for the ASCII white space.\<close>

definition is_space :: "char \<Rightarrow> bool" where
  "is_space x = (x \<in> set [CHR '' '', CHR 0x09, CHR 0x0A, CHR 0x0B, CHR 0x0C, CHR 0x0D])"

definition trim :: "string \<Rightarrow> string" where
  "trim s = rev (dropWhile is_space (rev (dropWhile is_space s)))"

text \<open>\<^verbatim>\<open>path.sep\<close> and \<^verbatim>\<open>path.join\<close> are those of a POSIX platform.\<close>

definition sep :: char where
  "sep = CHR ''/''"

text \<open>The components of a path: \<^verbatim>\<open>p.split(path.sep)\<close>.\<close>

fun split_sep :: "string \<Rightarrow> string list" where
  "split_sep [] = [[]]"
| "split_sep (x # xs) =
     (if x = sep then [] # split_sep xs
      else (case split_sep xs of [] \<Rightarrow> [[x]] | s # ss \<Rightarrow> (x # s) # ss))"

fun join_sep :: "string list \<Rightarrow> string" where
  "join_sep [] = []"
| "join_sep [s] = s"
| "join_sep (s # t # ss) = s @ sep # join_sep (t # ss)"

text \<open>
  Node's \<^verbatim>\<open>normalizeString\<close>: empty components and \<^verbatim>\<open>.\<close> are dropped, \<^verbatim>\<open>..\<close> removes the
  component before it, or is kept when there is none and the path is relative. \<open>acc\<close> holds
  the components kept so far, the last one first.
\<close>

fun normalizeString :: "bool \<Rightarrow> string list \<Rightarrow> string list \<Rightarrow> string list" where
  "normalizeString allowAboveRoot acc [] = rev acc"
| "normalizeString allowAboveRoot acc (s # ss) =
     (if s = [] \<or> s = ''.'' then normalizeString allowAboveRoot acc ss
      else if s = ''..'' then
        (case acc of
           [] \<Rightarrow> normalizeString allowAboveRoot (if allowAboveRoot then [''..''] else []) ss
         | t # ts \<Rightarrow>
             if t = ''..'' then
               normalizeString allowAboveRoot (if allowAboveRoot then ''..'' # acc else acc) ss
             else normalizeString allowAboveRoot ts ss)
      else normalizeString allowAboveRoot (s # acc) ss)"

definition normalize :: "string \<Rightarrow> string" where
  "normalize p =
     (if p = [] then ''.''
      else
        let isAbsolute = (hd p = sep);
            trailingSeparator = (last p = sep);
            q = join_sep (normalizeString (\<not> isAbsolute) [] (split_sep p))
        in if q = [] then (if isAbsolute then [sep] else if trailingSeparator then ''./'' else ''.'')
           else (if isAbsolute then [sep] else []) @ q @ (if trailingSeparator then [sep] else []))"

text \<open>\<^verbatim>\<open>path.join(a, b)\<close>: the non-empty arguments joined by \<^verbatim>\<open>/\<close>, then normalized.\<close>

definition path_join :: "string \<Rightarrow> string \<Rightarrow> string" where
  "path_join a b =
     (let joined = (if a = [] then b else if b = [] then a else a @ sep # b)
      in if joined = [] then ''.'' else normalize joined)"

subsection \<open>The template engine\<close>

text \<open>
  \<^verbatim>\<open>ejs\<close> is a library outside the repository. The model is the part of its template
  language that templates of output tags use: the template text is cut at the delimiters
  (\<^verbatim>\<open>parseTemplateText\<close>, with the open and close characters of the options and the
  delimiter \<^verbatim>\<open>%\<close>), text is copied, \<^verbatim>\<open><%= e %>\<close> appends the escaped value of \<open>e\<close> and
  \<^verbatim>\<open><%- e %>\<close> the value as it is. An expression is the name of a field of the substitution
  data. Everything else (scriptlets, comments, literal delimiters, white space control,
  other JavaScript expressions, a tag that is not closed) is a \<open>TemplateError\<close>: the model
  says nothing about what \<^verbatim>\<open>ejs\<close> renders there.
\<close>

datatype tag =
    OpenLiteral | CloseLiteral | OpenEscaped | OpenRaw | OpenSlurp | OpenComment | OpenEval
  | ClosePlain | CloseTrim | CloseSlurp

datatype token = Text string | Tag tag

text \<open>
  The delimiter that starts at the head of the text, and its length, in the order of the
  alternatives of the regular expression of \<^verbatim>\<open>ejs\<close>.
\<close>

definition delimiter_at :: "char \<Rightarrow> char \<Rightarrow> string \<Rightarrow> (tag \<times> nat) option" where
  "delimiter_at od cd s =
     (if take 3 s = [od, CHR ''%'', CHR ''%''] then Some (OpenLiteral, 3)
      else if take 3 s = [CHR ''%'', CHR ''%'', cd] then Some (CloseLiteral, 3)
      else if take 3 s = [od, CHR ''%'', CHR ''=''] then Some (OpenEscaped, 3)
      else if take 3 s = [od, CHR ''%'', CHR ''-''] then Some (OpenRaw, 3)
      else if take 3 s = [od, CHR ''%'', CHR ''_''] then Some (OpenSlurp, 3)
      else if take 3 s = [od, CHR ''%'', CHR ''#''] then Some (OpenComment, 3)
      else if take 2 s = [od, CHR ''%''] then Some (OpenEval, 2)
      else if take 2 s = [CHR ''%'', cd] then Some (ClosePlain, 2)
      else if take 3 s = [CHR ''-'', CHR ''%'', cd] then Some (CloseTrim, 3)
      else if take 3 s = [CHR ''_'', CHR ''%'', cd] then Some (CloseSlurp, 3)
      else None)"

fun add_text :: "char \<Rightarrow> token list \<Rightarrow> token list" where
  "add_text x (Text t # ts) = Text (x # t) # ts"
| "add_text x ts = Text [x] # ts"

fun parseTemplateText :: "char \<Rightarrow> char \<Rightarrow> string \<Rightarrow> token list" where
  "parseTemplateText od cd [] = []"
| "parseTemplateText od cd (x # xs) =
     (case delimiter_at od cd (x # xs) of
        Some (t, n) \<Rightarrow> Tag t # parseTemplateText od cd (drop (n - 1) xs)
      | None \<Rightarrow> add_text x (parseTemplateText od cd xs))"

text \<open>The value of an expression: the trimmed text names a field of the data.\<close>

definition eval_expression :: "SubstitutionData \<Rightarrow> string \<Rightarrow> string option" where
  "eval_expression D e =
     (let x = trim e in
      if x = ''project.slug'' then Some (slug (project D))
      else if x = ''project.name'' then Some (Project.name (project D))
      else if x = ''project.version'' then Some (version (project D))
      else if x = ''project.description'' then Some (Project.description (project D))
      else if x = ''project.package'' then Some (Project.package (project D))
      else if x = ''author'' then Some (author D)
      else if x = ''license'' then Some (license D)
      else if x = ''repo'' then Some (SubstitutionData.repo D)
      else None)"

definition prepend :: "string \<Rightarrow> error + string \<Rightarrow> error + string" where
  "prepend s r = (case r of Inl e \<Rightarrow> Inl e | Inr t \<Rightarrow> Inr (s @ t))"

fun render_tokens :: "(string \<Rightarrow> string) \<Rightarrow> SubstitutionData \<Rightarrow> token list \<Rightarrow> error + string" where
  "render_tokens esc D [] = Inr []"
| "render_tokens esc D (Text t # ts) = prepend t (render_tokens esc D ts)"
| "render_tokens esc D (Tag g # Text e # Tag ClosePlain # ts) =
     (if g = OpenEscaped then
        (case eval_expression D e of
           None \<Rightarrow> Inl (TemplateError e)
         | Some v \<Rightarrow> prepend (esc v) (render_tokens esc D ts))
      else if g = OpenRaw then
        (case eval_expression D e of
           None \<Rightarrow> Inl (TemplateError e)
         | Some v \<Rightarrow> prepend v (render_tokens esc D ts))
      else Inl (TemplateError ''unsupported tag''))"
| "render_tokens esc D (Tag g # ts) = Inl (TemplateError ''unsupported tag'')"

definition ejs_render ::
    "char \<Rightarrow> char \<Rightarrow> (string \<Rightarrow> string) \<Rightarrow> string \<Rightarrow> SubstitutionData \<Rightarrow> error + string" where
  "ejs_render od cd esc template D = render_tokens esc D (parseTemplateText od cd template)"

text \<open>The default escape function of \<^verbatim>\<open>ejs\<close>, \<^verbatim>\<open>escapeXML\<close>.\<close>

fun escapeXML :: "string \<Rightarrow> string" where
  "escapeXML [] = []"
| "escapeXML (x # xs) =
     (if x = CHR ''&'' then ''&amp;''
      else if x = CHR ''<'' then ''&lt;''
      else if x = CHR ''>'' then ''&gt;''
      else if x = CHR 0x22 then ''&#34;''
      else if x = CHR 0x27 then ''&#39;''
      else [x]) @ escapeXML xs"

text \<open>
  The two calls of \<^verbatim>\<open>ejs.render\<close> in \<^verbatim>\<open>createModuleFromTemplate\<close>. For the path:
  the leading \<^verbatim>\<open>$\<close> removed, the delimiters \<^verbatim>\<open>{\<close> and \<^verbatim>\<open>}\<close>, and the escape function
  \<^verbatim>\<open>(value) => value.replace('.', path.sep)\<close>. For the content: the defaults.
\<close>

definition escape_path :: "string \<Rightarrow> string" where
  "escape_path v = replace_first CHR ''.'' [sep] v"

definition render_path :: "string \<Rightarrow> SubstitutionData \<Rightarrow> error + string" where
  "render_path file D = ejs_render CHR ''{'' CHR ''}'' escape_path (strip_dollar file) D"

definition render_content :: "string \<Rightarrow> SubstitutionData \<Rightarrow> error + string" where
  "render_content template D = ejs_render CHR ''<'' CHR ''>'' escapeXML template D"

subsection \<open>The prompts\<close>

text \<open>
  \<^verbatim>\<open>askForPackageSlugAsync\<close>: the prompt's \<^verbatim>\<open>onCancel\<close> is \<^verbatim>\<open>() => process.exit(0)\<close>.
\<close>

definition askForPackageSlugAsync :: "env \<Rightarrow> string option \<Rightarrow> string io" where
  "askForPackageSlugAsync E customTargetPath =
     io_bind (emit (Prompted SlugPrompt)) (\<lambda>_.
       case slug_answer E of
         Answered s \<Rightarrow> io_return s
       | Cancelled \<Rightarrow> io_exit 0)"

text \<open>
  \<^verbatim>\<open>askForSubstitutionDataAsync\<close>: \<^verbatim>\<open>getSubstitutionDataPrompts\<close> is awaited first; the
  prompt's \<^verbatim>\<open>onCancel\<close> calls \<^verbatim>\<open>process.exit(0)\<close>; the answers are put into the record,
  with the version, the license and the shape of the author line fixed by the code.
\<close>

definition askForSubstitutionDataAsync :: "env \<Rightarrow> string \<Rightarrow> SubstitutionData io" where
  "askForSubstitutionDataAsync E sl =
     io_bind (io_of_failure (getSubstitutionDataPrompts_failure E)) (\<lambda>_.
     io_bind (emit (Prompted SubstitutionPrompts)) (\<lambda>_.
       case substitution_answers E of
         Cancelled \<Rightarrow> io_exit 0
       | Answered a \<Rightarrow>
           io_return
             \<lparr> project =
                 \<lparr> slug = sl,
                   name = Answers.name a,
                   version = ''0.1.0'',
                   description = Answers.description a,
                   package = Answers.package a \<rparr>,
               author = authorName a @ '' <'' @ authorEmail a @ ''> ('' @ authorUrl a @ '')'',
               license = ''MIT'',
               repo = Answers.repo a \<rparr>))"

subsection \<open>Scanning the template directory\<close>

definition IGNORES_PATHS :: "string list" where
  "IGNORES_PATHS = [''.DS_Store'', ''build'', ''node_modules'', ''package.json'']"

text \<open>\<^verbatim>\<open>dir ? path.join(dir, file) : file\<close>\<close>

definition relative_path :: "string option \<Rightarrow> string \<Rightarrow> string" where
  "relative_path dir file =
     (case dir of
        None \<Rightarrow> file
      | Some d \<Rightarrow> if d \<noteq> [] then path_join d file else file)"

text \<open>
  \<^verbatim>\<open>getFilesAsync(root, dir)\<close>, on the entries of the directory \<^verbatim>\<open>path.join(root, dir)\<close>:
  the loop over the entries, an ignored entry skipped, a directory scanned in turn, any other
  entry pushed with its relative path.
\<close>

function getFilesAsync :: "string option \<Rightarrow> entries \<Rightarrow> string list" where
  "getFilesAsync dir [] = []"
| "getFilesAsync dir ((file, n) # rest) =
     (if relative_path dir file \<in> set IGNORES_PATHS \<or> file \<in> set IGNORES_PATHS
      then getFilesAsync dir rest
      else (case n of
              Dir sub \<Rightarrow> getFilesAsync (Some (relative_path dir file)) sub
            | File c \<Rightarrow> [relative_path dir file]) @ getFilesAsync dir rest)"
  by pat_completeness auto
termination
  by (relation "measure (\<lambda>(dir, es). size_list (size_prod (\<lambda>_. 0) size) es)") auto

text \<open>Reading the file at a relative path of the template directory.\<close>

fun lookup_node :: "entries \<Rightarrow> string list \<Rightarrow> node option" where
  "lookup_node es [] = None"
| "lookup_node es [c] = map_of es c"
| "lookup_node es (c # cs) =
     (case map_of es c of
        Some (Dir sub) \<Rightarrow> lookup_node sub cs
      | _ \<Rightarrow> None)"

definition readFile :: "entries \<Rightarrow> string \<Rightarrow> error + string" where
  "readFile T file =
     (case lookup_node T (split_sep file) of
        Some (File c) \<Rightarrow> Inr c
      | _ \<Rightarrow> Inl (NoSuchFile file))"

text \<open>
  The components of the path \<open>p\<close> relative to the directory \<open>d\<close>, when \<open>p\<close> lies beneath \<open>d\<close>.
\<close>

definition beneath :: "string \<Rightarrow> string \<Rightarrow> string list option" where
  "beneath d p =
     (if take (length d + 1) p = d @ [sep] then Some (split_sep (drop (length d + 1) p))
      else None)"

text \<open>
  A file put into a tree at the components of its relative path: the directories on the way
  are made, a file of the same name is replaced where it stands, a new name comes last.
\<close>

fun insert_file :: "entries \<Rightarrow> string list \<Rightarrow> string \<Rightarrow> entries" where
  "insert_file es [] content = es"
| "insert_file [] [c] content = [(c, File content)]"
| "insert_file [] (c # cs) content = [(c, Dir (insert_file [] cs content))]"
| "insert_file ((k, v) # es) (c # cs) content =
     (if k = c then
        (if cs = [] then (k, File content) # es
         else (k, Dir (insert_file (case v of Dir sub \<Rightarrow> sub | File x \<Rightarrow> []) cs content)) # es)
      else (k, v) # insert_file es (c # cs) content)"

text \<open>The entry at the components of a relative path taken out of a tree.\<close>

fun delete_node :: "entries \<Rightarrow> string list \<Rightarrow> entries" where
  "delete_node es [] = es"
| "delete_node [] (c # cs) = []"
| "delete_node ((k, v) # es) (c # cs) =
     (if k = c then
        (if cs = [] then delete_node es (c # cs)
         else (k, (case v of Dir sub \<Rightarrow> Dir (delete_node sub cs) | File x \<Rightarrow> File x)) # es)
      else (k, v) # delete_node es (c # cs))"

subsection \<open>Rendering the template\<close>

text \<open>
  \<^verbatim>\<open>fs.outputFile(toPath, renderedContent)\<close>: the file has the new text afterwards, also in
  the tree of every template directory it lies beneath.
\<close>

definition outputFile :: "string \<Rightarrow> string \<Rightarrow> world \<Rightarrow> world" where
  "outputFile toPath content w =
     w\<lparr>files := (files w)(toPath \<mapsto> content),
       dirs := (\<lambda>d. case dirs w d of
                      None \<Rightarrow> None
                    | Some T \<Rightarrow>
                        (case beneath d toPath of
                           None \<Rightarrow> Some T
                         | Some cs \<Rightarrow> Some (insert_file T cs content))),
       log := log w @ [OutputFile toPath content]\<rparr>"

text \<open>
  \<^verbatim>\<open>fs.readFile(path.join(templatePath, file))\<close>: the file as the template directory has it
  at the time of the read.
\<close>

definition readFile_at :: "world \<Rightarrow> string \<Rightarrow> string \<Rightarrow> error + string" where
  "readFile_at w templatePath file =
     (case dirs w templatePath of
        None \<Rightarrow> Inl (NoSuchFile templatePath)
      | Some T \<Rightarrow> readFile T file)"

text \<open>
  The loop of \<^verbatim>\<open>createModuleFromTemplate\<close> over the files found. An error of a file ends
  the loop; the files written before stay.
\<close>

fun render_files ::
    "string \<Rightarrow> string \<Rightarrow> SubstitutionData \<Rightarrow> string list \<Rightarrow> world \<Rightarrow> unit result \<times> world" where
  "render_files templatePath targetPath D [] w = (Returned (), w)"
| "render_files templatePath targetPath D (file # rest) w =
     (case render_path file D of
        Inl e \<Rightarrow> (Thrown e, w)
      | Inr renderedRelativePath \<Rightarrow>
          (case readFile_at w templatePath file of
             Inl e \<Rightarrow> (Thrown e, w)
           | Inr template \<Rightarrow>
               (case render_content template D of
                  Inl e \<Rightarrow> (Thrown e, w)
                | Inr renderedContent \<Rightarrow>
                    render_files templatePath targetPath D rest
                      (outputFile (path_join targetPath renderedRelativePath) renderedContent w))))"

text \<open>
  \<^verbatim>\<open>createModuleFromTemplate\<close>: the files are listed once, before the loop; each is read
  when its turn comes.
\<close>

definition createModuleFromTemplate :: "string \<Rightarrow> string \<Rightarrow> SubstitutionData \<Rightarrow> unit io" where
  "createModuleFromTemplate templatePath targetPath D w =
     (case dirs w templatePath of
        None \<Rightarrow> (Thrown (NoSuchFile templatePath), w)
      | Some T \<Rightarrow> render_files templatePath targetPath D (getFilesAsync None T) w)"

subsection \<open>The steps of the command\<close>

text \<open>
  Modelled from the spec: \<^verbatim>\<open>newStep\<close> of \<^verbatim>\<open>./utils\<close> is not among the sources; each step
  is reported by its name, and a failure of its action is the failure of the run.
\<close>

definition newStep :: "string \<Rightarrow> 'a io \<Rightarrow> 'a io" where
  "newStep title action = io_bind (emit (Step title)) (\<lambda>_. action)"

definition ensureDir :: "env \<Rightarrow> string \<Rightarrow> unit io" where
  "ensureDir E d = io_bind (emit (EnsureDir d)) (\<lambda>_. io_of_failure (ensureDir_failure E d))"

text \<open>
  \<^verbatim>\<open>confirmTargetDirAsync\<close>: the confirmation prompt's \<^verbatim>\<open>onCancel\<close> is \<^verbatim>\<open>() => false\<close>,
  so a cancelled prompt returns no answer, \<^verbatim>\<open>shouldContinue\<close> is \<^verbatim>\<open>undefined\<close> and the
  process exits as it does after the answer no.
\<close>

definition confirmTargetDirAsync :: "env \<Rightarrow> string \<Rightarrow> unit io" where
  "confirmTargetDirAsync E targetDir =
     io_bind (emit (Readdir targetDir)) (\<lambda>_.
     io_bind (io_of_sum (readdir_result E targetDir)) (\<lambda>fs.
       if length fs = 0 then io_return ()
       else
         io_bind (emit (Prompted ConfirmPrompt)) (\<lambda>_.
           case confirm_answer E of
             Answered shouldContinue \<Rightarrow> if \<not> shouldContinue then io_exit 0 else io_return ()
           | Cancelled \<Rightarrow> io_exit 0)))"

definition resolvePackageManager :: "env \<Rightarrow> string io" where
  "resolvePackageManager E = io_of_sum (resolvePackageManager_result E)"

text \<open>\<^verbatim>\<open>getNpmTarballUrl\<close>: \<^verbatim>\<open>npm view <packageName>@<version> dist.tarball\<close>, trimmed.\<close>

definition getNpmTarballUrl :: "env \<Rightarrow> string \<Rightarrow> string \<Rightarrow> string io" where
  "getNpmTarballUrl E packageName v =
     io_bind (emit (NpmView (packageName @ ''@'' @ v))) (\<lambda>_.
     io_bind (io_of_sum (npm_view_result E (packageName @ ''@'' @ v))) (\<lambda>stdout.
       io_return (trim stdout)))"

text \<open>
  \<^verbatim>\<open>downloadTarball({url, dir})\<close>: the files of the tarball, which are wrapped in the directory
  \<^verbatim>\<open>package\<close>, are extracted beneath \<open>dir\<close>.
\<close>

definition downloadTarball :: "env \<Rightarrow> string \<Rightarrow> string \<Rightarrow> unit io" where
  "downloadTarball E url dir =
     io_bind (emit (DownloadTarball url dir)) (\<lambda>_.
     io_bind (io_of_sum (downloadTarball_result E url)) (\<lambda>T w.
       (Returned (), w\<lparr>dirs := (dirs w)(path_join dir ''package'' \<mapsto> T)\<rparr>)))"

definition downloadPackageAsync :: "env \<Rightarrow> string \<Rightarrow> string io" where
  "downloadPackageAsync E targetDir =
     newStep ''Downloading module template from npm''
       (io_bind (getNpmTarballUrl E ''expo-module-template''
                   (if EXPO_BETA E then ''next'' else ''latest'')) (\<lambda>tarballUrl.
        io_bind (downloadTarball E tarballUrl targetDir) (\<lambda>_.
        io_bind (emit (StepSucceeded ''Downloaded module template from npm'')) (\<lambda>_.
          io_return (path_join targetDir ''package'')))))"

definition installDependencies :: "env \<Rightarrow> string \<Rightarrow> string \<Rightarrow> unit io" where
  "installDependencies E packageManager targetDir =
     io_bind (emit (InstallDependencies packageManager targetDir)) (\<lambda>_.
       io_of_failure (installDependencies_failure E))"

definition spawn_build :: "env \<Rightarrow> string \<Rightarrow> string \<Rightarrow> unit io" where
  "spawn_build E packageManager targetDir =
     io_bind (emit (SpawnBuild packageManager targetDir)) (\<lambda>_.
       io_of_failure (build_failure E))"

definition createExampleApp :: "env \<Rightarrow> SubstitutionData \<Rightarrow> string \<Rightarrow> string \<Rightarrow> unit io" where
  "createExampleApp E D targetDir packageManager =
     io_bind (emit (CreateExampleApp targetDir packageManager)) (\<lambda>_.
       io_of_failure (createExampleApp_failure E))"

text \<open>\<^verbatim>\<open>fs.remove(p)\<close>: the file or the directory \<open>p\<close>, with all beneath it, is gone.\<close>

definition remove :: "string \<Rightarrow> unit io" where
  "remove p w =
     (Returned (),
      w\<lparr>files := (\<lambda>q. if q = p \<or> take (length p + 1) q = p @ [sep] then None else files w q),
        dirs := (\<lambda>d. if d = p \<or> take (length p + 1) d = p @ [sep] then None
                     else (case dirs w d of
                             None \<Rightarrow> None
                           | Some T \<Rightarrow>
                               (case beneath d p of
                                  None \<Rightarrow> Some T
                                | Some cs \<Rightarrow> Some (delete_node T cs)))),
        log := log w @ [Removed p]\<rparr>)"

record CommandOptions =
  target :: "string option"
  source :: "string option"
  withReadme :: bool
  withChangelog :: bool
  example :: bool

text \<open>
  The expression of \<open>main\<close> that gives \<^verbatim>\<open>packagePath\<close>:
  \<^verbatim>\<open>options.source ? path.join(CWD, options.source) : await downloadPackageAsync(targetDir)\<close>.
\<close>

definition acquire_template :: "env \<Rightarrow> CommandOptions \<Rightarrow> string \<Rightarrow> string io" where
  "acquire_template E options targetDir =
     (case source options of
        None \<Rightarrow> downloadPackageAsync E targetDir
      | Some s \<Rightarrow>
          if s \<noteq> [] then io_return (path_join (CWD E) s)
          else downloadPackageAsync E targetDir)"

text \<open>
  \<^verbatim>\<open>main(target, options)\<close>. The value returned is the options object, whose \<open>target\<close> the
  function assigns. The last line logged starts with a check mark, left out of the text here.
\<close>

definition main :: "env \<Rightarrow> string option \<Rightarrow> CommandOptions \<Rightarrow> CommandOptions io" where
  "main E tgt options =
     io_bind (askForPackageSlugAsync E tgt) (\<lambda>sl.
     let targetDir = path_join (CWD E) (or_else tgt sl) in
     io_bind (ensureDir E targetDir) (\<lambda>_.
     io_bind (confirmTargetDirAsync E targetDir) (\<lambda>_.
     let options' = options\<lparr>target := Some targetDir\<rparr> in
     io_bind (askForSubstitutionDataAsync E sl) (\<lambda>D.
     io_bind (emit (ConsoleLog [])) (\<lambda>_.
     io_bind (resolvePackageManager E) (\<lambda>packageManager.
     io_bind (acquire_template E options' targetDir) (\<lambda>packagePath.
     io_bind (newStep ''Creating the module from template files''
               (io_bind (createModuleFromTemplate packagePath targetDir D) (\<lambda>_.
                  emit (StepSucceeded ''Created the module from template files'')))) (\<lambda>_.
     io_bind (newStep ''Installing module dependencies''
               (io_bind (installDependencies E packageManager targetDir) (\<lambda>_.
                  emit (StepSucceeded ''Installed module dependencies'')))) (\<lambda>_.
     io_bind (newStep ''Compiling TypeScript files''
               (io_bind (spawn_build E packageManager targetDir) (\<lambda>_.
                  emit (StepSucceeded ''Compiled TypeScript files'')))) (\<lambda>_.
     io_bind (if \<not> truthy (source options') then remove packagePath else io_return ()) (\<lambda>_.
     io_bind (if \<not> withReadme options' then remove (path_join targetDir ''README.md'')
              else io_return ()) (\<lambda>_.
     io_bind (if \<not> withChangelog options' then remove (path_join targetDir ''CHANGELOG.md'')
              else io_return ()) (\<lambda>_.
     io_bind (if example options' then createExampleApp E D targetDir packageManager
              else io_return ()) (\<lambda>_.
     io_bind (emit (ConsoleLog [])) (\<lambda>_.
     io_bind (emit (ConsoleLog ''Successfully created Expo module'')) (\<lambda>_.
       io_return options'))))))))))))))))"

text \<open>
  The exit status of the process after \<open>main\<close>: that of \<^verbatim>\<open>process.exit\<close>; zero when \<open>main\<close>
  returns; and, for a rejected promise that nothing handles, the non-zero status of Node.
\<close>

definition exit_status :: "'a result \<Rightarrow> nat" where
  "exit_status r = (case r of Returned _ \<Rightarrow> 0 | Exited n \<Rightarrow> n | Thrown _ \<Rightarrow> 1)"

subsection \<open>Well-formed directories\<close>

text \<open>
  The names \<^verbatim>\<open>readdir\<close> returns are file names: not empty, without a separator, and
  neither \<^verbatim>\<open>.\<close> nor \<^verbatim>\<open>..\<close>.
\<close>

definition valid_name :: "string \<Rightarrow> bool" where
  "valid_name n = (n \<noteq> [] \<and> sep \<notin> set n \<and> n \<noteq> ''.'' \<and> n \<noteq> ''..'')"

function wf_entries :: "entries \<Rightarrow> bool" where
  "wf_entries [] = True"
| "wf_entries ((file, n) # rest) =
     (valid_name file \<and> (case n of Dir sub \<Rightarrow> wf_entries sub | File c \<Rightarrow> True) \<and> wf_entries rest)"
  by pat_completeness auto
termination
  by (relation "measure (size_list (size_prod (\<lambda>_. 0) size))") auto

text \<open>The \<open>dir\<close> argument of \<open>getFilesAsync\<close> for the directory with the components \<open>ds\<close>.\<close>

definition dir_of :: "string list \<Rightarrow> string option" where
  "dir_of ds = (if ds = [] then None else Some (join_sep ds))"

subsection \<open>Literal text of a template\<close>

text \<open>
  Notions for the proofs about the template engine. \<open>tapp\<close> appends two token lists as
  \<open>parseTemplateText\<close> would, joining a text at the end of the first with a text at the start of
  the second; a character is literal when no delimiter contains it; \<open>token_chars\<close> are the
  characters of the text tokens; \<open>data_values\<close> are the values a template can substitute.
\<close>

fun tapp :: "token list \<Rightarrow> token list \<Rightarrow> token list" where
  "tapp [] us = us"
| "tapp [Text t] (Text u # us) = Text (t @ u) # us"
| "tapp (tok # ts) us = tok # tapp ts us"

definition is_literal :: "char \<Rightarrow> char \<Rightarrow> char \<Rightarrow> bool" where
  "is_literal od cd x = (x \<notin> set [od, cd, CHR ''%'', CHR ''='', CHR ''-'', CHR ''_'', CHR ''#''])"

fun token_chars :: "token list \<Rightarrow> char set" where
  "token_chars [] = {}"
| "token_chars (Text t # ts) = set t \<union> token_chars ts"
| "token_chars (Tag g # ts) = token_chars ts"

definition data_values :: "SubstitutionData \<Rightarrow> string list" where
  "data_values D =
     [slug (project D), Project.name (project D), version (project D),
      Project.description (project D), Project.package (project D),
      author D, license D, SubstitutionData.repo D]"

subsection \<open>The writes of the render loop\<close>




subsection \<open>The run of main, step by step\<close>

text \<open>
  Notions for the proofs about \<open>main\<close>. \<open>main_steps\<close> are the steps of \<open>main\<close> after the prompts,
  from the line break logged before the progress on. A computation is \<open>well_behaved\<close> for a
  property \<open>P\<close> of events when it exits with the status 0 only and adds to the log only events
  with \<open>P\<close>.
\<close>

definition main_steps :: "env \<Rightarrow> CommandOptions \<Rightarrow> string \<Rightarrow> SubstitutionData \<Rightarrow> CommandOptions io" where
  "main_steps E options' targetDir D =
     io_bind (emit (ConsoleLog [])) (\<lambda>_.
     io_bind (resolvePackageManager E) (\<lambda>packageManager.
     io_bind (acquire_template E options' targetDir) (\<lambda>packagePath.
     io_bind (newStep ''Creating the module from template files''
               (io_bind (createModuleFromTemplate packagePath targetDir D) (\<lambda>_.
                  emit (StepSucceeded ''Created the module from template files'')))) (\<lambda>_.
     io_bind (newStep ''Installing module dependencies''
               (io_bind (installDependencies E packageManager targetDir) (\<lambda>_.
                  emit (StepSucceeded ''Installed module dependencies'')))) (\<lambda>_.
     io_bind (newStep ''Compiling TypeScript files''
               (io_bind (spawn_build E packageManager targetDir) (\<lambda>_.
                  emit (StepSucceeded ''Compiled TypeScript files'')))) (\<lambda>_.
     io_bind (if \<not> truthy (source options') then remove packagePath else io_return ()) (\<lambda>_.
     io_bind (if \<not> withReadme options' then remove (path_join targetDir ''README.md'')
              else io_return ()) (\<lambda>_.
     io_bind (if \<not> withChangelog options' then remove (path_join targetDir ''CHANGELOG.md'')
              else io_return ()) (\<lambda>_.
     io_bind (if example options' then createExampleApp E D targetDir packageManager
              else io_return ()) (\<lambda>_.
     io_bind (emit (ConsoleLog [])) (\<lambda>_.
     io_bind (emit (ConsoleLog ''Successfully created Expo module'')) (\<lambda>_.
       io_return options'))))))))))))"

definition well_behaved :: "(event \<Rightarrow> bool) \<Rightarrow> 'a io \<Rightarrow> bool" where
  "well_behaved P m =
     (\<forall>w. (\<forall>n. fst (m w) = Exited n \<longrightarrow> n = 0) \<and>
          (\<exists>evs. log (snd (m w)) = log w @ evs \<and> list_all P evs))"

definition not_prompt :: "event \<Rightarrow> bool" where
  "not_prompt ev = (case ev of Prompted k \<Rightarrow> False | _ \<Rightarrow> True)"

definition no_download :: "event \<Rightarrow> bool" where
  "no_download ev = (case ev of NpmView x \<Rightarrow> False | DownloadTarball u d \<Rightarrow> False | _ \<Rightarrow> True)"

subsection \<open>A run of the command\<close>

text \<open>
  A template directory at \<^verbatim>\<open>/work/template\<close>, answers and an outside world in which every
  step succeeds; the examples below are variations of it.
\<close>

definition example_template :: entries where
  "example_template =
     [(''$package.json'', File ''name: <%- project.slug %>, version: <%- project.version %>''),
      (''package.json'', File ''name: expo-module-template''),
      (''android'',
         Dir [(''{%= project.package %}'',
                 Dir [(''{%- project.name %}Module.kt'', File ''package <%- project.package %>'')]),
              (''build'', Dir [(''out.txt'', File ''x'')])]),
      (''README.md'', File ''# <%= project.name %>'')]"

definition example_answers :: Answers where
  "example_answers =
     \<lparr> name = ''Widget'',
       description = ''A widget.'',
       package = ''com.acme.widget'',
       authorName = ''Ada'',
       authorEmail = ''ada@acme.com'',
       authorUrl = ''https://acme.com/ada'',
       repo = ''https://acme.com/widget'' \<rparr>"

definition example_data :: SubstitutionData where
  "example_data =
     \<lparr> project =
         \<lparr> slug = ''acme-widget'', name = ''Widget'', version = ''0.1.0'',
           description = ''A widget.'', package = ''com.acme.widget'' \<rparr>,
       author = ''Ada <ada@acme.com> (https://acme.com/ada)'',
       license = ''MIT'',
       repo = ''https://acme.com/widget'' \<rparr>"

definition example_env :: env where
  "example_env =
     \<lparr> CWD = ''/work'',
       EXPO_BETA = False,
       slug_answer = Answered ''acme-widget'',
       ensureDir_failure = (\<lambda>_. None),
       readdir_result = (\<lambda>_. Inr []),
       confirm_answer = Answered True,
       getSubstitutionDataPrompts_failure = None,
       substitution_answers = Answered example_answers,
       resolvePackageManager_result = Inr ''npm'',
       npm_view_result = (\<lambda>_. Inr (''https://registry/expo-module-template.tgz'' @ [CHR 0x0A])),
       downloadTarball_result = (\<lambda>_. Inr example_template),
       installDependencies_failure = None,
       build_failure = None,
       createExampleApp_failure = None \<rparr>"

definition example_world :: world where
  "example_world =
     \<lparr> files = Map.empty, dirs = [''/work/template'' \<mapsto> example_template], log = [] \<rparr>"

definition example_options :: CommandOptions where
  "example_options =
     \<lparr> target = None, source = Some ''template'', withReadme = False, withChangelog = False,
       example = True \<rparr>"

text \<open>A template directory with \<^verbatim>\<open>$\<close> at the start of a directory and of a file in it.\<close>

definition dollar_template :: entries where
  "dollar_template = [(''$sub'', Dir [(''$file.ts'', File ''export {}'')])]"

definition dollar_world :: world where
  "dollar_world = \<lparr> files = Map.empty, dirs = [''/work/template'' \<mapsto> dollar_template], log = [] \<rparr>"



section \<open>Properties\<close>

subsection \<open>The substitution data record\<close>

lemma askForSubstitutionDataAsync_answered:
  "getSubstitutionDataPrompts_failure E = None \<Longrightarrow> substitution_answers E = Answered a \<Longrightarrow>
   askForSubstitutionDataAsync E sl w =
     (Returned
        \<lparr> project =
            \<lparr> slug = sl, name = Answers.name a, version = ''0.1.0'',
              description = Answers.description a, package = Answers.package a \<rparr>,
          author = authorName a @ '' <'' @ authorEmail a @ ''> ('' @ authorUrl a @ '')'',
          license = ''MIT'',
          repo = Answers.repo a \<rparr>,
      w\<lparr>log := log w @ [Prompted SubstitutionPrompts]\<rparr>)"
  by (simp add: askForSubstitutionDataAsync_def io_bind_def io_of_failure_def io_return_def
      emit_def)

lemma askForSubstitutionDataAsync_cases:
  "fst (askForSubstitutionDataAsync E sl w) = Returned d \<Longrightarrow>
   \<exists>a. substitution_answers E = Answered a \<and>
       d = \<lparr> project =
            \<lparr> slug = sl, name = Answers.name a, version = ''0.1.0'',
              description = Answers.description a, package = Answers.package a \<rparr>,
          author = authorName a @ '' <'' @ authorEmail a @ ''> ('' @ authorUrl a @ '')'',
          license = ''MIT'',
          repo = Answers.repo a \<rparr>"
  by (auto simp: askForSubstitutionDataAsync_def io_bind_def io_of_failure_def io_return_def
      io_throw_def io_exit_def emit_def split: option.splits prompted.splits)

text \<open>
  C7. Whatever the answers are, a record returned by \<open>askForSubstitutionDataAsync\<close> has the
  license \<open>MIT\<close>, and its author field is the one string
  \<open>authorName <authorEmail> (authorUrl)\<close> built from the three answers; and with the answers
  given the function does return such a record.
\<close>

theorem license_MIT_author_formatted:
  "(\<forall>d. fst (askForSubstitutionDataAsync E sl w) = Returned d \<longrightarrow>
      license d = ''MIT'' \<and>
      (\<exists>a. substitution_answers E = Answered a \<and>
         author d = authorName a @ '' <'' @ authorEmail a @ ''> ('' @ authorUrl a @ '')'')) \<and>
   (getSubstitutionDataPrompts_failure E = None \<and> substitution_answers E = Answered a \<longrightarrow>
      (\<exists>d. fst (askForSubstitutionDataAsync E sl w) = Returned d))"
proof (intro conjI allI impI)
  fix d
  assume r: "fst (askForSubstitutionDataAsync E sl w) = Returned d"
  from askForSubstitutionDataAsync_cases [OF r]
  obtain a' where a': "substitution_answers E = Answered a'"
    and d: "d = \<lparr> project =
            \<lparr> slug = sl, name = Answers.name a', version = ''0.1.0'',
              description = Answers.description a', package = Answers.package a' \<rparr>,
          author = authorName a' @ '' <'' @ authorEmail a' @ ''> ('' @ authorUrl a' @ '')'',
          license = ''MIT'',
          repo = Answers.repo a' \<rparr>"
    by blast
  show "license d = ''MIT''" by (simp add: d)
  show "\<exists>a. substitution_answers E = Answered a \<and>
         author d = authorName a @ '' <'' @ authorEmail a @ ''> ('' @ authorUrl a @ '')''"
    using a' by (simp add: d)
next
  assume "getSubstitutionDataPrompts_failure E = None \<and> substitution_answers E = Answered a"
  then show "\<exists>d. fst (askForSubstitutionDataAsync E sl w) = Returned d"
    by (simp add: askForSubstitutionDataAsync_answered)
qed

theorem license_MIT_author_formatted_witness:
  "fst (askForSubstitutionDataAsync example_env ''acme-widget'' example_world) =
     Returned example_data \<and>
   license example_data = ''MIT'' \<and>
   author example_data = ''Ada <ada@acme.com> (https://acme.com/ada)'' \<and>
   (\<exists>d. fst (askForSubstitutionDataAsync example_env ''acme-widget'' example_world) = Returned d)"
proof -
  have r: "fst (askForSubstitutionDataAsync example_env ''acme-widget'' example_world) =
      Returned example_data"
    by (simp add: askForSubstitutionDataAsync_answered example_env_def example_answers_def
        example_data_def)
  have h: "getSubstitutionDataPrompts_failure example_env = None \<and>
      substitution_answers example_env = Answered example_answers"
    by (simp add: example_env_def)
  from license_MIT_author_formatted [of example_env "''acme-widget''" example_world example_answers]
    r h
  show ?thesis
    by (simp add: example_data_def)
qed

text \<open>
  C10. Whatever the run and the answers are, a record returned by
  \<open>askForSubstitutionDataAsync\<close> has the project version \<open>0.1.0\<close>.
\<close>

theorem version_constant:
  "fst (askForSubstitutionDataAsync E sl w) = Returned d \<Longrightarrow> version (project d) = ''0.1.0''"
proof -
  assume r: "fst (askForSubstitutionDataAsync E sl w) = Returned d"
  from askForSubstitutionDataAsync_cases [OF r] show ?thesis
    by auto
qed

theorem version_constant_witness:
  "fst (askForSubstitutionDataAsync example_env ''acme-widget'' example_world) =
     Returned example_data \<and>
   version (project example_data) = ''0.1.0''"
proof -
  have r: "fst (askForSubstitutionDataAsync example_env ''acme-widget'' example_world) =
      Returned example_data"
    by (simp add: askForSubstitutionDataAsync_answered example_env_def example_answers_def
        example_data_def)
  from version_constant [OF r] r show ?thesis
    by simp
qed

subsection \<open>Paths of well-formed names\<close>

lemma split_sep_not_Nil: "split_sep s \<noteq> []"
  by (induction s) (auto split: list.splits)

lemma split_sep_plain: "sep \<notin> set s \<Longrightarrow> split_sep s = [s]"
  by (induction s) auto

lemma split_sep_append: "sep \<notin> set s \<Longrightarrow> split_sep (s @ sep # t) = s # split_sep t"
  by (induction s) auto

lemma split_join_sep:
  "cs \<noteq> [] \<Longrightarrow> \<forall>c\<in>set cs. sep \<notin> set c \<Longrightarrow> split_sep (join_sep cs) = cs"
  by (induction cs rule: join_sep.induct) (auto simp: split_sep_plain split_sep_append)

lemma join_sep_snoc: "cs \<noteq> [] \<Longrightarrow> join_sep (cs @ [c]) = join_sep cs @ sep # c"
  by (induction cs rule: join_sep.induct) auto

lemma join_sep_not_Nil: "cs \<noteq> [] \<Longrightarrow> \<forall>c\<in>set cs. c \<noteq> [] \<Longrightarrow> join_sep cs \<noteq> []"
  by (induction cs rule: join_sep.induct) auto

lemma hd_join_sep: "cs \<noteq> [] \<Longrightarrow> hd cs \<noteq> [] \<Longrightarrow> hd (join_sep cs) = hd (hd cs)"
  by (induction cs rule: join_sep.induct) auto

lemma join_sep_last_not_Nil: "cs \<noteq> [] \<Longrightarrow> last cs \<noteq> [] \<Longrightarrow> join_sep cs \<noteq> []"
  by (induction cs rule: join_sep.induct) auto

lemma last_join_sep: "cs \<noteq> [] \<Longrightarrow> last cs \<noteq> [] \<Longrightarrow> last (join_sep cs) = last (last cs)"
  by (induction cs rule: join_sep.induct) (auto simp: join_sep_last_not_Nil)

lemma normalizeString_valid:
  "\<forall>c\<in>set cs. valid_name c \<Longrightarrow> normalizeString b acc cs = rev acc @ cs"
  by (induction cs arbitrary: acc) (auto simp: valid_name_def)

lemma normalize_valid:
  assumes "cs \<noteq> []" and "\<forall>c\<in>set cs. valid_name c"
  shows "normalize (join_sep cs) = join_sep cs"
proof -
  let ?p = "join_sep cs"
  have ne: "?p \<noteq> []" using assms by (intro join_sep_not_Nil) (auto simp: valid_name_def)
  have hdne: "hd cs \<noteq> []" and lastne: "last cs \<noteq> []"
    using assms by (auto simp: valid_name_def)
  have "hd cs \<in> set cs" "last cs \<in> set cs" using assms by auto
  then have "sep \<notin> set (hd cs)" "sep \<notin> set (last cs)" using assms by (auto simp: valid_name_def)
  then have "hd (hd cs) \<noteq> sep" "last (last cs) \<noteq> sep"
    using hdne lastne by (metis hd_in_set, metis last_in_set)
  then have a: "hd ?p \<noteq> sep" and t: "last ?p \<noteq> sep"
    using assms hdne lastne by (simp_all add: hd_join_sep last_join_sep)
  have s: "split_sep ?p = cs"
    using assms by (intro split_join_sep) (auto simp: valid_name_def)
  show ?thesis
    using ne a t s assms by (simp add: normalize_def normalizeString_valid)
qed

lemma path_join_valid:
  assumes "cs \<noteq> []" and "\<forall>c\<in>set cs. valid_name c" and "valid_name c"
  shows "path_join (join_sep cs) c = join_sep (cs @ [c])"
proof -
  have ne: "join_sep cs \<noteq> []"
    using assms by (intro join_sep_not_Nil) (auto simp: valid_name_def)
  have c: "c \<noteq> []" using assms by (simp add: valid_name_def)
  have "normalize (join_sep (cs @ [c])) = join_sep (cs @ [c])"
    using assms by (intro normalize_valid) auto
  then show ?thesis
    using ne c assms(1) by (simp add: path_join_def join_sep_snoc)
qed

lemma relative_path_valid:
  assumes "\<forall>c\<in>set ds. valid_name c" and "valid_name file"
  shows "relative_path (dir_of ds) file = join_sep (ds @ [file])"
proof (cases "ds = []")
  case True
  then show ?thesis by (simp add: relative_path_def dir_of_def)
next
  case False
  then have "join_sep ds \<noteq> []"
    using assms by (intro join_sep_not_Nil) (auto simp: valid_name_def)
  then show ?thesis
    using False assms by (simp add: relative_path_def dir_of_def path_join_valid)
qed

lemma getFilesAsync_components:
  "wf_entries es \<Longrightarrow> \<forall>c\<in>set ds. valid_name c \<and> c \<notin> set IGNORES_PATHS \<Longrightarrow> dir = dir_of ds \<Longrightarrow>
   p \<in> set (getFilesAsync dir es) \<Longrightarrow>
   \<exists>cs. p = join_sep cs \<and> cs \<noteq> [] \<and> (\<forall>c\<in>set cs. valid_name c \<and> c \<notin> set IGNORES_PATHS)"
proof (induction dir es arbitrary: ds rule: getFilesAsync.induct)
  case (1 dir)
  then show ?case by simp
next
  case (2 dir f n rest)
  have vf: "valid_name f" and wr: "wf_entries rest"
    using "2.prems"(1) by auto
  have rp: "relative_path dir f = join_sep (ds @ [f])"
    using "2.prems"(2,3) vf by (simp add: relative_path_valid)
  show ?case
  proof (cases "relative_path dir f \<in> set IGNORES_PATHS \<or> f \<in> set IGNORES_PATHS")
    case True
    then have "p \<in> set (getFilesAsync dir rest)" using "2.prems"(4) by simp
    from "2.IH"(1) [OF True wr "2.prems"(2,3) this] show ?thesis .
  next
    case False
    then have ok: "\<forall>c\<in>set (ds @ [f]). valid_name c \<and> c \<notin> set IGNORES_PATHS"
      using "2.prems"(2) vf by auto
    from False "2.prems"(4) consider
      (here) "p \<in> set (case n of Dir sub \<Rightarrow> getFilesAsync (Some (relative_path dir f)) sub
                       | File c \<Rightarrow> [relative_path dir f])"
      | (later) "p \<in> set (getFilesAsync dir rest)"
      by auto
    then show ?thesis
    proof cases
      case here
      show ?thesis
      proof (cases n)
        case (File c)
        with here rp have "p = join_sep (ds @ [f])" by simp
        with ok show ?thesis by blast
      next
        case (Dir sub)
        with here have p: "p \<in> set (getFilesAsync (Some (relative_path dir f)) sub)" by simp
        have ws: "wf_entries sub" using "2.prems"(1) Dir by simp
        have d: "Some (relative_path dir f) = dir_of (ds @ [f])"
          by (simp add: rp dir_of_def)
        from "2.IH"(2) [OF False Dir ws ok d p] show ?thesis .
      qed
    next
      case later
      from "2.IH"(3) [OF False wr "2.prems"(2,3) later] show ?thesis .
    qed
  qed
qed

text \<open>
  C4. For every well-formed directory given to \<open>getFilesAsync\<close>, no path of the list it returns
  has a component (at any depth) that is one of the ignored names \<^verbatim>\<open>.DS_Store\<close>,
  \<^verbatim>\<open>build\<close>, \<^verbatim>\<open>node_modules\<close>, \<^verbatim>\<open>package.json\<close>.
\<close>

theorem ignored_names_never_listed:
  assumes "wf_entries T" and "p \<in> set (getFilesAsync None T)" and "c \<in> set (split_sep p)"
  shows "c \<notin> set IGNORES_PATHS"
proof -
  have "None = dir_of []" by (simp add: dir_of_def)
  from getFilesAsync_components [OF assms(1) _ this assms(2), simplified]
  obtain cs where p: "p = join_sep cs" and ne: "cs \<noteq> []"
    and ok: "\<forall>c\<in>set cs. valid_name c \<and> c \<notin> set IGNORES_PATHS"
    by blast
  have "split_sep p = cs"
    unfolding p using ne ok by (intro split_join_sep) (auto simp: valid_name_def)
  with assms(3) ok show ?thesis by simp
qed

theorem ignored_names_never_listed_witness:
  "wf_entries example_template \<and>
   getFilesAsync None example_template =
     [''$package.json'', ''android/{%= project.package %}/{%- project.name %}Module.kt'',
      ''README.md''] \<and>
   ''android'' \<in> set (split_sep ''android/{%= project.package %}/{%- project.name %}Module.kt'') \<and>
   ''android'' \<notin> set IGNORES_PATHS"
proof -
  have wf: "wf_entries example_template"
    by (simp add: example_template_def valid_name_def sep_def)
  have fs: "getFilesAsync None example_template =
     [''$package.json'', ''android/{%= project.package %}/{%- project.name %}Module.kt'',
      ''README.md'']"
    by (simp add: example_template_def relative_path_def IGNORES_PATHS_def path_join_def
      normalize_def sep_def)
  have p: "''android/{%= project.package %}/{%- project.name %}Module.kt''
      \<in> set (getFilesAsync None example_template)"
    by (simp add: fs)
  have c: "''android'' \<in> set (split_sep ''android/{%= project.package %}/{%- project.name %}Module.kt'')"
    by (simp add: sep_def)
  from ignored_names_never_listed [OF wf p c] wf fs c show ?thesis
    by blast
qed

subsection \<open>The template engine: literal text\<close>

lemma delimiter_at_literal:
  "is_literal od cd x \<Longrightarrow> delimiter_at od cd (x # b) = None"
  by (simp add: delimiter_at_def is_literal_def)

lemma list_shape:
  obtains "s = []" | y where "s = [y]" | y z where "s = [y, z]"
    | y z u r where "s = y # z # u # r"
proof (cases s)
  case Nil
  then show ?thesis using that by blast
next
  case (Cons y r1)
  note c1 = this
  show ?thesis
  proof (cases r1)
    case Nil
    with c1 show ?thesis using that by blast
  next
    case (Cons z r2)
    note c2 = this
    show ?thesis
    proof (cases r2)
      case Nil
      with c1 c2 show ?thesis using that by blast
    next
      case (Cons u r)
      with c1 c2 show ?thesis using that by blast
    qed
  qed
qed

lemma delimiter_at_cong:
  "take 3 s = take 3 s' \<Longrightarrow> take 2 s = take 2 s' \<Longrightarrow> delimiter_at od cd s = delimiter_at od cd s'"
  by (simp only: delimiter_at_def)

lemma delimiter_at_append:
  assumes "is_literal od cd x" and "a \<noteq> []"
  shows "delimiter_at od cd (a @ x # b) = delimiter_at od cd a"
proof (cases a rule: list_shape)
  case 1
  with assms(2) show ?thesis by simp
next
  case (2 y)
  then show ?thesis using assms(1) by (simp add: delimiter_at_def is_literal_def)
next
  case (3 y z)
  then show ?thesis using assms(1) by (simp add: delimiter_at_def is_literal_def)
next
  case (4 y z u r)
  then show ?thesis by (intro delimiter_at_cong) simp_all
qed

lemma delimiter_at_length:
  assumes "delimiter_at od cd s = Some (t, n)"
  shows "2 \<le> n \<and> n \<le> length s"
proof (cases s rule: list_shape)
  case 1
  with assms show ?thesis by (simp add: delimiter_at_def)
next
  case (2 y)
  with assms show ?thesis by (simp add: delimiter_at_def)
next
  case (3 y z)
  with assms show ?thesis by (simp add: delimiter_at_def split: if_splits)
next
  case (4 y z u r)
  with assms show ?thesis by (simp add: delimiter_at_def split: if_splits)
qed

lemma add_text_tapp: "add_text y (tapp ts (Text u # us)) = tapp (add_text y ts) (Text u # us)"
proof (cases ts)
  case Nil
  then show ?thesis by simp
next
  case (Cons a r)
  show ?thesis
  proof (cases a)
    case (Text t)
    with Cons show ?thesis by (cases r) simp_all
  next
    case (Tag g)
    with Cons show ?thesis by simp
  qed
qed

lemma add_text_is_Text: "\<exists>u us. add_text x ts = Text u # us"
  by (cases "(x, ts)" rule: add_text.cases) auto

lemma parse_append:
  "is_literal od cd x \<Longrightarrow>
   parseTemplateText od cd (a @ x # b) =
     tapp (parseTemplateText od cd a) (add_text x (parseTemplateText od cd b))"
proof (induction od cd a rule: parseTemplateText.induct)
  case (1 od cd)
  then show ?case by (simp add: delimiter_at_literal)
next
  case (2 od cd y ys)
  have d: "delimiter_at od cd ((y # ys) @ x # b) = delimiter_at od cd (y # ys)"
    using "2.prems" by (intro delimiter_at_append) auto
  obtain u us where tx: "add_text x (parseTemplateText od cd b) = Text u # us"
    using add_text_is_Text by blast
  show ?case
  proof (cases "delimiter_at od cd (y # ys)")
    case None
    with d "2.IH"(1) [OF None "2.prems"] show ?thesis
      by (simp add: tx add_text_tapp)
  next
    case (Some tn)
    obtain t n where tn: "tn = (t, n)" by (cases tn)
    from delimiter_at_length [of od cd "y # ys" t n] Some tn
    have n: "2 \<le> n" "n \<le> Suc (length ys)" by simp_all
    then have dr: "drop (n - 1) (ys @ x # b) = drop (n - 1) ys @ x # b" by simp
    from "2.IH"(2) [OF Some tn [symmetric] "2.prems"] d Some tn dr show ?thesis
      by simp
  qed
qed

lemma prepend_Nil [simp]: "prepend [] r = r"
  by (cases r) (simp_all add: prepend_def)

lemma prepend_append [simp]: "prepend (s @ t) r = prepend s (prepend t r)"
  by (cases r) (simp_all add: prepend_def)

lemma prepend_Inr [simp]: "prepend s (Inr t) = Inr (s @ t)"
  by (simp add: prepend_def)

lemma prepend_Inl [simp]: "prepend s (Inl e) = Inl e"
  by (simp add: prepend_def)

lemma prepend_eq_Inr: "prepend s r = Inr out \<longleftrightarrow> (\<exists>t. r = Inr t \<and> out = s @ t)"
  by (cases r) auto

lemma render_tokens_tapp:
  "render_tokens esc D ts = Inr ra \<Longrightarrow>
   render_tokens esc D (tapp ts (Text u # us)) = prepend ra (render_tokens esc D (Text u # us))"
proof (induction esc D ts arbitrary: ra rule: render_tokens.induct)
  case (1 esc D)
  then show ?case by simp
next
  case (2 esc D t ts)
  then obtain r where r: "render_tokens esc D ts = Inr r" and ra: "ra = t @ r"
    by (auto simp: prepend_eq_Inr)
  show ?case
  proof (cases ts)
    case Nil
    with r ra show ?thesis by simp
  next
    case (Cons a list)
    with "2.IH" [OF r] ra show ?thesis by simp
  qed
next
  case (3 esc D g e ts)
  then show ?case
    by (auto split: if_splits option.splits simp: prepend_eq_Inr)
qed simp_all

lemma render_add_text:
  "render_tokens esc D (add_text x ts) = prepend [x] (render_tokens esc D ts)"
  by (cases "(x, ts)" rule: add_text.cases) (simp_all add: prepend_def split: sum.splits)

lemma ejs_render_literal:
  assumes "is_literal od cd x" and "ejs_render od cd esc a D = Inr ra"
  shows "ejs_render od cd esc (a @ x # b) D =
         prepend (ra @ [x]) (ejs_render od cd esc b D)"
proof -
  obtain u us where tx: "add_text x (parseTemplateText od cd b) = Text u # us"
    using add_text_is_Text by blast
  have "render_tokens esc D (Text u # us) = prepend [x] (render_tokens esc D (parseTemplateText od cd b))"
    unfolding tx [symmetric] by (rule render_add_text)
  with assms show ?thesis
    unfolding ejs_render_def parse_append [OF assms(1)] tx
    by (simp add: render_tokens_tapp)
qed

lemma ejs_render_Nil: "ejs_render od cd esc [] D = Inr []"
  by (simp add: ejs_render_def)

lemma strip_dollar_append: "strip_dollar (pre @ CHR ''/'' # r) = strip_dollar pre @ CHR ''/'' # r"
  by (cases pre) auto

text \<open>
  C9. Only a \<^verbatim>\<open>$\<close> at the very start of the relative path is removed. When the relative path
  of a template file has a \<^verbatim>\<open>$\<close> at the start of a component that is not the first
  (\<open>pre/$post\<close>, as in \<^verbatim>\<open>sub/$file.ts\<close>, the separator and the \<^verbatim>\<open>$\<close> being text outside
  the tags: the part before and the part after render on their own), the rendered path is the
  rendered part before, the same \<^verbatim>\<open>/$\<close>, and the rendered part after.
\<close>

theorem inner_dollar_preserved:
  assumes "render_path pre D = Inr rpre"
    and "ejs_render CHR ''{'' CHR ''}'' escape_path post D = Inr rpost"
  shows "render_path (pre @ ''/$'' @ post) D = Inr (rpre @ ''/$'' @ rpost)"
proof -
  have a: "ejs_render CHR ''{'' CHR ''}'' escape_path (strip_dollar pre) D = Inr rpre"
    using assms(1) by (simp add: render_path_def)
  have l1: "is_literal CHR ''{'' CHR ''}'' CHR ''/''" and l2: "is_literal CHR ''{'' CHR ''}'' CHR ''$''"
    by (simp_all add: is_literal_def)
  have "ejs_render CHR ''{'' CHR ''}'' escape_path ([] @ CHR ''$'' # post) D
      = prepend ([] @ ''$'') (ejs_render CHR ''{'' CHR ''}'' escape_path post D)"
    by (rule ejs_render_literal [OF l2 ejs_render_Nil])
  then have b: "ejs_render CHR ''{'' CHR ''}'' escape_path (CHR ''$'' # post) D = Inr (''$'' @ rpost)"
    using assms(2) by simp
  from ejs_render_literal [OF l1 a, of "CHR ''$'' # post"] b
  show ?thesis
    by (simp add: render_path_def strip_dollar_append)
qed

theorem inner_dollar_preserved_witness:
  "render_path ''sub'' example_data = Inr ''sub'' \<and>
   ejs_render CHR ''{'' CHR ''}'' escape_path ''file.ts'' example_data = Inr ''file.ts'' \<and>
   render_path ''sub/$file.ts'' example_data = Inr ''sub/$file.ts'' \<and>
   path_join ''/work/acme-widget'' ''sub/$file.ts'' = ''/work/acme-widget/sub/$file.ts''"
proof -
  have a: "render_path ''sub'' example_data = Inr ''sub''"
    by (simp add: render_path_def ejs_render_def delimiter_at_def prepend_def)
  have b: "ejs_render CHR ''{'' CHR ''}'' escape_path ''file.ts'' example_data = Inr ''file.ts''"
    by (simp add: ejs_render_def delimiter_at_def prepend_def)
  have j: "path_join ''/work/acme-widget'' ''sub/$file.ts'' = ''/work/acme-widget/sub/$file.ts''"
    by (simp add: path_join_def normalize_def sep_def)
  from inner_dollar_preserved [OF a b] a b j show ?thesis
    by simp
qed

subsection \<open>The characters of a rendered path\<close>

lemma token_chars_add_text: "token_chars (add_text x ts) = insert x (token_chars ts)"
  by (cases "(x, ts)" rule: add_text.cases) auto

lemma token_chars_parse: "token_chars (parseTemplateText od cd s) \<subseteq> set s"
proof (induction od cd s rule: parseTemplateText.induct)
  case (1 od cd)
  then show ?case by simp
next
  case (2 od cd x xs)
  show ?case
  proof (cases "delimiter_at od cd (x # xs)")
    case None
    with "2.IH"(1) show ?thesis
      by (auto simp: token_chars_add_text)
  next
    case (Some tn)
    obtain t n where tn: "tn = (t, n)" by (cases tn)
    have "set (drop (n - 1) xs) \<subseteq> set xs" by (rule set_drop_subset)
    with "2.IH"(2) [OF Some tn [symmetric]] Some tn show ?thesis
      by auto
  qed
qed

lemma eval_expression_value: "eval_expression D e = Some v \<Longrightarrow> v \<in> set (data_values D)"
  by (simp add: eval_expression_def data_values_def Let_def split: if_splits)

lemma render_tokens_chars:
  "render_tokens esc D ts = Inr out \<Longrightarrow>
   set out \<subseteq> token_chars ts \<union> (\<Union>v\<in>set (data_values D). set v \<union> set (esc v))"
proof (induction esc D ts arbitrary: out rule: render_tokens.induct)
  case (1 esc D)
  then show ?case by simp
next
  case (2 esc D t ts)
  then obtain r where r: "render_tokens esc D ts = Inr r" and out: "out = t @ r"
    by (auto simp: prepend_eq_Inr)
  from "2.IH" [OF r] out show ?case by auto
next
  case (3 esc D g e ts)
  from "3.prems" obtain v r where v: "eval_expression D e = Some v"
    and r: "render_tokens esc D ts = Inr r"
    and out: "out = esc v @ r \<or> out = v @ r"
    and g: "g = OpenEscaped \<or> g = OpenRaw"
    by (auto split: if_splits option.splits simp: prepend_eq_Inr)
  have iv: "v \<in> set (data_values D)" using v by (rule eval_expression_value)
  have "set r \<subseteq> token_chars ts \<union> (\<Union>v\<in>set (data_values D). set v \<union> set (esc v))"
  proof (cases "g = OpenEscaped")
    case True
    from "3.IH"(1) [OF True v r] show ?thesis .
  next
    case False
    with g have "g = OpenRaw" by simp
    from "3.IH"(2) [OF False this v r] show ?thesis .
  qed
  with out iv show ?case by auto
qed simp_all

lemma set_replace_first: "set (replace_first c r s) \<subseteq> set s \<union> set r"
  by (induction s) auto

lemma set_join_sep: "set (join_sep cs) \<subseteq> (\<Union>c\<in>set cs. set c) \<union> {sep}"
  by (induction cs rule: join_sep.induct) auto

lemma in_split_sep: "c \<in> set (split_sep p) \<Longrightarrow> x \<in> set c \<Longrightarrow> x \<in> set p"
proof (induction p arbitrary: c)
  case Nil
  then show ?case by simp
next
  case (Cons y p)
  show ?case
  proof (cases "y = sep")
    case True
    with Cons.prems have "c \<in> set (split_sep p)" by auto
    from Cons.IH [OF this Cons.prems(2)] show ?thesis by simp
  next
    case False
    obtain s ss where sp: "split_sep p = s # ss"
      using split_sep_not_Nil [of p] by (cases "split_sep p") auto
    with False Cons.prems(1) have "c = y # s \<or> c \<in> set ss" by simp
    then show ?thesis
    proof
      assume "c = y # s"
      with Cons.prems(2) have "x = y \<or> x \<in> set s" by simp
      then show ?thesis
        using Cons.IH [of s] sp by auto
    next
      assume "c \<in> set ss"
      then have "c \<in> set (split_sep p)" by (simp add: sp)
      from Cons.IH [OF this Cons.prems(2)] show ?thesis by simp
    qed
  qed
qed

lemma set_split_sep: "(\<Union>c\<in>set (split_sep p). set c) \<subseteq> set p"
  using in_split_sep by fastforce

lemma set_normalizeString:
  "set (normalizeString b acc ss) \<subseteq> set acc \<union> set ss \<union> {''..''}"
proof (induction b acc ss rule: normalizeString.induct)
  case (1 allowAboveRoot acc)
  then show ?case by auto
next
  case (2 allowAboveRoot acc s ss)
  then show ?case
    by (auto split: list.splits if_splits)
qed

lemma set_normalize: "set (normalize p) \<subseteq> set p \<union> {sep, CHR ''.''}"
proof -
  have "(\<Union>c\<in>set (normalizeString b [] (split_sep p)). set c) \<subseteq> set p \<union> {CHR ''.''}" for b
    using set_normalizeString [of b "[]" "split_sep p"] set_split_sep [of p]
    by fastforce
  then have "set (join_sep (normalizeString b [] (split_sep p))) \<subseteq> set p \<union> {sep, CHR ''.''}" for b
    using set_join_sep [of "normalizeString b [] (split_sep p)"] by blast
  then show ?thesis
    by (auto simp: normalize_def Let_def sep_def)
qed

lemma set_path_join: "set (path_join a b) \<subseteq> set a \<union> set b \<union> {sep, CHR ''.''}"
  using set_normalize [of "a @ sep # b"] set_normalize [of a] set_normalize [of b]
  by (auto simp: path_join_def Let_def)

text \<open>
  C2, as amended. For every template file whose relative path begins with \<^verbatim>\<open>$\<close>, that one
  character is removed and the rest of the path is rendered as it is (a second \<^verbatim>\<open>$\<close>, or
  one further on, stays). When the rest of the path is text and output tags that name fields of
  the substitution data, the rendered path and the destination contain no \<^verbatim>\<open>$\<close> provided
  the rest of the relative path, the substituted values and the target directory contain none.
\<close>

theorem leading_dollar_stripped_once:
  "strip_dollar (CHR ''$'' # rest) = rest \<and>
   render_path (CHR ''$'' # rest) D = ejs_render CHR ''{'' CHR ''}'' escape_path rest D \<and>
   (render_path (CHR ''$'' # rest) D = Inr out \<and> CHR ''$'' \<notin> set rest \<and>
    (\<forall>v\<in>set (data_values D). CHR ''$'' \<notin> set v) \<and> CHR ''$'' \<notin> set targetPath \<longrightarrow>
      CHR ''$'' \<notin> set out \<and> CHR ''$'' \<notin> set (path_join targetPath out))"
proof (intro conjI impI)
  show "strip_dollar (CHR ''$'' # rest) = rest" by simp
  show "render_path (CHR ''$'' # rest) D = ejs_render CHR ''{'' CHR ''}'' escape_path rest D"
    by (simp add: render_path_def)
next
  assume a: "render_path (CHR ''$'' # rest) D = Inr out \<and> CHR ''$'' \<notin> set rest \<and>
    (\<forall>v\<in>set (data_values D). CHR ''$'' \<notin> set v) \<and> CHR ''$'' \<notin> set targetPath"
  then have r: "render_tokens escape_path D (parseTemplateText CHR ''{'' CHR ''}'' rest) = Inr out"
    by (simp add: render_path_def ejs_render_def)
  have e: "CHR ''$'' \<notin> set (escape_path v)" if "v \<in> set (data_values D)" for v
    using a that set_replace_first [of "CHR ''.''" "[sep]" v]
    by (auto simp: escape_path_def sep_def)
  have t: "CHR ''$'' \<notin> token_chars (parseTemplateText CHR ''{'' CHR ''}'' rest)"
    using a token_chars_parse [of "CHR ''{''" "CHR ''}''" rest] by blast
  from render_tokens_chars [OF r] t e a show o: "CHR ''$'' \<notin> set out"
    by blast
  from set_path_join [of targetPath out] o a show "CHR ''$'' \<notin> set (path_join targetPath out)"
    by (auto simp: sep_def)
qed

theorem leading_dollar_stripped_once_witness:
  "render_path ''$package.json'' example_data = Inr ''package.json'' \<and>
   strip_dollar ''$package.json'' = ''package.json'' \<and>
   CHR ''$'' \<notin> set ''package.json'' \<and>
   path_join ''/work/acme-widget'' ''package.json'' = ''/work/acme-widget/package.json'' \<and>
   CHR ''$'' \<notin> set (path_join ''/work/acme-widget'' ''package.json'')"
proof -
  have r: "render_path ''$package.json'' example_data = Inr ''package.json''"
    by (simp add: render_path_def ejs_render_def delimiter_at_def prepend_def)
  have v: "\<forall>v\<in>set (data_values example_data). CHR ''$'' \<notin> set v"
    by (simp add: data_values_def example_data_def)
  have j: "path_join ''/work/acme-widget'' ''package.json'' = ''/work/acme-widget/package.json''"
    by (simp add: path_join_def normalize_def sep_def)
  from leading_dollar_stripped_once
    [of "''package.json''" example_data "''package.json''" "''/work/acme-widget''"] r v j
  show ?thesis
    by simp
qed

text \<open>
  C2 as stated fails: the file \<^verbatim>\<open>$sub/$file.ts\<close> of a template is written to
  \<^verbatim>\<open>sub/$file.ts\<close> beneath the target directory, a destination with a \<^verbatim>\<open>$\<close>.
\<close>

theorem dollar_in_destination:
  "getFilesAsync None dollar_template = [''$sub/$file.ts''] \<and>
   render_path ''$sub/$file.ts'' example_data = Inr ''sub/$file.ts'' \<and>
   files (snd (createModuleFromTemplate ''/work/template'' ''/work/acme-widget'' example_data
                 dollar_world)) ''/work/acme-widget/sub/$file.ts'' = Some ''export {}'' \<and>
   CHR ''$'' \<in> set ''/work/acme-widget/sub/$file.ts''"
  by (simp add: createModuleFromTemplate_def dollar_world_def dollar_template_def
      relative_path_def IGNORES_PATHS_def path_join_def normalize_def sep_def
      render_path_def render_content_def ejs_render_def delimiter_at_def readFile_def readFile_at_def beneath_def outputFile_def
      prepend_def)

subsection \<open>Dots of a substituted value\<close>

text \<open>
  C1, at the package identifier \<^verbatim>\<open>com.acme.widget\<close>. The escape function of the path
  rendering, \<^verbatim>\<open>value.replace('.', path.sep)\<close>, turns the first dot of the value into the
  separator and leaves the others: the template path
  \<^verbatim>\<open>android/{%= project.package %}/{%- project.name %}Module.kt\<close> is written to
  \<^verbatim>\<open>android/com/acme.widget/WidgetModule.kt\<close>, not beneath \<^verbatim>\<open>com/acme/widget\<close>. The
  dots of a value rendered into a file's content are unchanged.
\<close>

theorem package_dots_first_only:
  "escape_path ''com.acme.widget'' = ''com/acme.widget'' \<and>
   render_path ''{%= project.package %}/index.ts'' example_data = Inr ''com/acme.widget/index.ts'' \<and>
   render_content ''package <%= project.package %>'' example_data = Inr ''package com.acme.widget'' \<and>
   files (snd (createModuleFromTemplate ''/work/template'' ''/work/acme-widget'' example_data
                 example_world))
     ''/work/acme-widget/android/com/acme.widget/WidgetModule.kt'' = Some ''package com.acme.widget''"
proof (intro conjI)
  show "escape_path ''com.acme.widget'' = ''com/acme.widget''"
    by (simp add: escape_path_def sep_def)
  show "render_path ''{%= project.package %}/index.ts'' example_data = Inr ''com/acme.widget/index.ts''"
    by (simp add: render_path_def ejs_render_def delimiter_at_def eval_expression_def trim_def
        is_space_def example_data_def escape_path_def prepend_def sep_def)
  show "render_content ''package <%= project.package %>'' example_data = Inr ''package com.acme.widget''"
    by (simp add: render_content_def ejs_render_def delimiter_at_def eval_expression_def trim_def
        is_space_def example_data_def prepend_def)
  show "files (snd (createModuleFromTemplate ''/work/template'' ''/work/acme-widget'' example_data
                 example_world))
     ''/work/acme-widget/android/com/acme.widget/WidgetModule.kt'' = Some ''package com.acme.widget''"
    by (simp add: createModuleFromTemplate_def example_world_def example_template_def
      relative_path_def IGNORES_PATHS_def path_join_def normalize_def sep_def
      render_path_def render_content_def ejs_render_def delimiter_at_def readFile_def readFile_at_def beneath_def outputFile_def
      eval_expression_def trim_def is_space_def example_data_def escape_path_def prepend_def)
qed

subsection \<open>The render step\<close>











subsection \<open>The steps of main\<close>

lemma main_unfold:
  "main E tgt options =
     io_bind (askForPackageSlugAsync E tgt) (\<lambda>sl.
     io_bind (ensureDir E (path_join (CWD E) (or_else tgt sl))) (\<lambda>_.
     io_bind (confirmTargetDirAsync E (path_join (CWD E) (or_else tgt sl))) (\<lambda>_.
     io_bind (askForSubstitutionDataAsync E sl) (\<lambda>D.
       main_steps E (options\<lparr>target := Some (path_join (CWD E) (or_else tgt sl))\<rparr>)
         (path_join (CWD E) (or_else tgt sl)) D))))"
  by (simp add: main_def main_steps_def Let_def)

lemma io_bind_Returned: "m w = (Returned a, w') \<Longrightarrow> io_bind m f w = f a w'"
  by (simp add: io_bind_def)

lemma io_bind_Exited: "m w = (Exited n, w') \<Longrightarrow> io_bind m f w = (Exited n, w')"
  by (simp add: io_bind_def)

lemma io_bind_Thrown: "m w = (Thrown e, w') \<Longrightarrow> io_bind m f w = (Thrown e, w')"
  by (simp add: io_bind_def)

lemma wb_return: "well_behaved P (io_return a)"
  by (simp add: well_behaved_def io_return_def)

lemma wb_throw: "well_behaved P (io_throw e)"
  by (simp add: well_behaved_def io_throw_def)

lemma wb_exit0: "well_behaved P (io_exit 0)"
  by (simp add: well_behaved_def io_exit_def)

lemma wb_emit: "P ev \<Longrightarrow> well_behaved P (emit ev)"
  by (simp add: well_behaved_def emit_def)

lemma wb_of_failure: "well_behaved P (io_of_failure r)"
  by (cases r) (simp_all add: io_of_failure_def wb_return wb_throw)

lemma wb_of_sum: "well_behaved P (io_of_sum r)"
  by (cases r) (simp_all add: io_of_sum_def wb_return wb_throw)

lemma wb_bind:
  assumes m: "well_behaved P m" and f: "\<And>a. well_behaved P (f a)"
  shows "well_behaved P (io_bind m f)"
  unfolding well_behaved_def
proof (intro allI)
  fix w
  obtain r w1 where mw: "m w = (r, w1)" by (cases "m w")
  from m obtain evs where e1: "log w1 = log w @ evs" "list_all P evs"
    and x1: "\<forall>n. r = Exited n \<longrightarrow> n = 0"
    unfolding well_behaved_def using mw by (metis fst_conv snd_conv)
  show "(\<forall>n. fst (io_bind m f w) = Exited n \<longrightarrow> n = 0) \<and>
        (\<exists>evs. log (snd (io_bind m f w)) = log w @ evs \<and> list_all P evs)"
  proof (cases r)
    case (Returned a)
    from f [of a] obtain evs' where e2: "log (snd (f a w1)) = log w1 @ evs'" "list_all P evs'"
      and x2: "\<forall>n. fst (f a w1) = Exited n \<longrightarrow> n = 0"
      unfolding well_behaved_def by blast
    have "io_bind m f w = f a w1" using mw Returned by (simp add: io_bind_def)
    moreover have "log (snd (f a w1)) = log w @ (evs @ evs')" "list_all P (evs @ evs')"
      using e1 e2 by simp_all
    ultimately show ?thesis using x2 by metis
  next
    case (Exited n)
    with mw e1 x1 show ?thesis by (auto simp: io_bind_def)
  next
    case (Thrown e)
    with mw e1 x1 show ?thesis by (auto simp: io_bind_def)
  qed
qed

lemma wb_if: "well_behaved P a \<Longrightarrow> well_behaved P b \<Longrightarrow> well_behaved P (if c then a else b)"
  by simp

lemma wb_newStep: "P (Step title) \<Longrightarrow> well_behaved P action \<Longrightarrow> well_behaved P (newStep title action)"
  by (simp add: newStep_def wb_bind wb_emit)

lemma render_files_behaved:
  assumes "\<forall>p c. P (OutputFile p c)"
  shows "(\<forall>n. fst (render_files templatePath targetPath D fs w) \<noteq> Exited n) \<and>
         (\<exists>evs. log (snd (render_files templatePath targetPath D fs w)) = log w @ evs \<and>
            list_all P evs)"
proof (induction fs arbitrary: w)
  case Nil
  then show ?case by simp
next
  case (Cons f fs)
  show ?case
  proof (cases "render_path f D")
    case (Inl e)
    then show ?thesis by simp
  next
    case (Inr rel)
    note rel = this
    show ?thesis
    proof (cases "readFile_at w templatePath f")
      case (Inl e)
      with rel show ?thesis by simp
    next
      case (Inr tpl)
      note tpl = this
      show ?thesis
      proof (cases "render_content tpl D")
        case (Inl e)
        with rel tpl show ?thesis by simp
      next
        case (Inr out)
        let ?w = "outputFile (path_join targetPath rel) out w"
        from Cons.IH [of ?w] obtain evs where
          x: "\<forall>n. fst (render_files templatePath targetPath D fs ?w) \<noteq> Exited n"
          and e: "log (snd (render_files templatePath targetPath D fs ?w)) = log ?w @ evs"
          and p: "list_all P evs"
          by blast
        have "log ?w = log w @ [OutputFile (path_join targetPath rel) out]"
          by (simp add: outputFile_def)
        with e have c1: "log (snd (render_files templatePath targetPath D fs ?w)) =
            log w @ (OutputFile (path_join targetPath rel) out # evs)"
          by simp
        have c2: "list_all P (OutputFile (path_join targetPath rel) out # evs)"
          using p assms by simp
        have eq: "render_files templatePath targetPath D (f # fs) w =
            render_files templatePath targetPath D fs ?w"
          using rel tpl Inr by simp
        show ?thesis
          unfolding eq using x c1 c2 by blast
      qed
    qed
  qed
qed

lemma wb_createModuleFromTemplate:
  assumes "\<forall>p c. P (OutputFile p c)"
  shows "well_behaved P (createModuleFromTemplate templatePath targetPath D)"
  unfolding well_behaved_def
proof (intro allI)
  fix w
  show "(\<forall>n. fst (createModuleFromTemplate templatePath targetPath D w) = Exited n \<longrightarrow> n = 0) \<and>
        (\<exists>evs. log (snd (createModuleFromTemplate templatePath targetPath D w)) = log w @ evs \<and>
           list_all P evs)"
  proof (cases "dirs w templatePath")
    case None
    then show ?thesis by (simp add: createModuleFromTemplate_def)
  next
    case (Some T)
    then show ?thesis
      using render_files_behaved [OF assms, of templatePath targetPath D "getFilesAsync None T" w]
      by (simp add: createModuleFromTemplate_def)
  qed
qed

lemma wb_remove: "P (Removed p) \<Longrightarrow> well_behaved P (remove p)"
  by (simp add: well_behaved_def remove_def)

lemma wb_askForPackageSlugAsync:
  "P (Prompted SlugPrompt) \<Longrightarrow> well_behaved P (askForPackageSlugAsync E tgt)"
  unfolding askForPackageSlugAsync_def
  by (intro wb_bind wb_emit) (simp_all add: wb_return wb_exit0 split: prompted.splits)

lemma wb_ensureDir: "P (EnsureDir d) \<Longrightarrow> well_behaved P (ensureDir E d)"
  unfolding ensureDir_def by (intro wb_bind wb_emit wb_of_failure)

lemma wb_confirmTargetDirAsync:
  "P (Readdir d) \<Longrightarrow> P (Prompted ConfirmPrompt) \<Longrightarrow> well_behaved P (confirmTargetDirAsync E d)"
  unfolding confirmTargetDirAsync_def
  by (intro wb_bind wb_emit wb_of_sum wb_if wb_return)
    (simp_all add: wb_return wb_exit0 split: prompted.splits)

lemma wb_askForSubstitutionDataAsync:
  "P (Prompted SubstitutionPrompts) \<Longrightarrow> well_behaved P (askForSubstitutionDataAsync E sl)"
  unfolding askForSubstitutionDataAsync_def
  by (intro wb_bind wb_emit wb_of_failure) (simp_all add: wb_return wb_exit0 split: prompted.splits)

lemma wb_resolvePackageManager: "well_behaved P (resolvePackageManager E)"
  unfolding resolvePackageManager_def by (rule wb_of_sum)

lemma wb_getNpmTarballUrl:
  "P (NpmView (packageName @ ''@'' @ v)) \<Longrightarrow> well_behaved P (getNpmTarballUrl E packageName v)"
  unfolding getNpmTarballUrl_def by (intro wb_bind wb_emit wb_of_sum wb_return)

lemma wb_downloadTarball:
  "P (DownloadTarball url dir) \<Longrightarrow> well_behaved P (downloadTarball E url dir)"
  unfolding downloadTarball_def
  by (intro wb_bind wb_emit wb_of_sum) (simp_all add: well_behaved_def)

lemma wb_downloadPackageAsync:
  assumes "\<And>ev. not_prompt ev \<Longrightarrow> P ev"
  shows "well_behaved P (downloadPackageAsync E targetDir)"
  unfolding downloadPackageAsync_def
  by (intro wb_newStep wb_bind wb_getNpmTarballUrl wb_downloadTarball wb_emit wb_return assms)
    (simp_all add: not_prompt_def)

lemma wb_acquire_template:
  assumes "\<And>ev. not_prompt ev \<Longrightarrow> P ev"
  shows "well_behaved P (acquire_template E options targetDir)"
  unfolding acquire_template_def
  by (simp add: wb_downloadPackageAsync [OF assms] wb_return split: option.splits)

lemma wb_installDependencies:
  "P (InstallDependencies pm d) \<Longrightarrow> well_behaved P (installDependencies E pm d)"
  unfolding installDependencies_def by (intro wb_bind wb_emit wb_of_failure)

lemma wb_spawn_build: "P (SpawnBuild pm d) \<Longrightarrow> well_behaved P (spawn_build E pm d)"
  unfolding spawn_build_def by (intro wb_bind wb_emit wb_of_failure)

lemma wb_createExampleApp:
  "P (CreateExampleApp d pm) \<Longrightarrow> well_behaved P (createExampleApp E D d pm)"
  unfolding createExampleApp_def by (intro wb_bind wb_emit wb_of_failure)

lemma wb_acquire_template_source:
  "source options = Some s \<Longrightarrow> s \<noteq> [] \<Longrightarrow> well_behaved P (acquire_template E options targetDir)"
  by (simp add: acquire_template_def wb_return)

lemma wb_main_steps:
  assumes "well_behaved P (acquire_template E options' targetDir)"
    and "\<And>ev. not_prompt ev \<Longrightarrow> no_download ev \<Longrightarrow> P ev"
  shows "well_behaved P (main_steps E options' targetDir D)"
  unfolding main_steps_def
  by (intro wb_bind wb_emit wb_return wb_if wb_newStep wb_resolvePackageManager
      wb_createModuleFromTemplate wb_installDependencies wb_spawn_build
      wb_remove wb_createExampleApp allI assms)
    (simp_all add: not_prompt_def no_download_def)

lemma wb_main: "well_behaved (\<lambda>_. True) (main E tgt options)"
  unfolding main_unfold
  by (intro wb_bind wb_askForPackageSlugAsync wb_ensureDir wb_confirmTargetDirAsync
      wb_askForSubstitutionDataAsync wb_main_steps wb_acquire_template) simp_all

lemma wb_main_source:
  assumes "source options = Some s" and "s \<noteq> []"
  shows "well_behaved no_download (main E tgt options)"
  unfolding main_unfold
  by (intro wb_bind wb_askForPackageSlugAsync wb_ensureDir wb_confirmTargetDirAsync
      wb_askForSubstitutionDataAsync wb_main_steps wb_acquire_template_source [of _ s])
    (simp_all add: assms no_download_def)

lemmas io_defs = io_bind_def io_return_def io_exit_def io_throw_def emit_def io_of_failure_def
  io_of_sum_def

lemma confirm_empty:
  "readdir_result E targetDir = Inr [] \<Longrightarrow>
   confirmTargetDirAsync E targetDir w = (Returned (), w\<lparr>log := log w @ [Readdir targetDir]\<rparr>)"
  by (simp add: confirmTargetDirAsync_def io_defs)

lemma confirm_declined:
  "readdir_result E targetDir = Inr (f # fs) \<Longrightarrow>
   confirm_answer E = Answered False \<or> confirm_answer E = Cancelled \<Longrightarrow>
   confirmTargetDirAsync E targetDir w =
     (Exited 0, w\<lparr>log := log w @ [Readdir targetDir, Prompted ConfirmPrompt]\<rparr>)"
  by (auto simp: confirmTargetDirAsync_def io_defs)

lemma confirm_accepted:
  "readdir_result E targetDir = Inr (f # fs) \<Longrightarrow> confirm_answer E = Answered True \<Longrightarrow>
   confirmTargetDirAsync E targetDir w =
     (Returned (), w\<lparr>log := log w @ [Readdir targetDir, Prompted ConfirmPrompt]\<rparr>)"
  by (simp add: confirmTargetDirAsync_def io_defs)

lemma slug_answered:
  "slug_answer E = Answered sl \<Longrightarrow>
   askForPackageSlugAsync E tgt w = (Returned sl, w\<lparr>log := log w @ [Prompted SlugPrompt]\<rparr>)"
  by (simp add: askForPackageSlugAsync_def io_defs)

lemma slug_cancelled:
  "slug_answer E = Cancelled \<Longrightarrow>
   askForPackageSlugAsync E tgt w = (Exited 0, w\<lparr>log := log w @ [Prompted SlugPrompt]\<rparr>)"
  by (simp add: askForPackageSlugAsync_def io_defs)

lemma ensureDir_ok:
  "ensureDir_failure E d = None \<Longrightarrow>
   ensureDir E d w = (Returned (), w\<lparr>log := log w @ [EnsureDir d]\<rparr>)"
  by (simp add: ensureDir_def io_defs)

lemma substitution_cancelled:
  "getSubstitutionDataPrompts_failure E = None \<Longrightarrow> substitution_answers E = Cancelled \<Longrightarrow>
   askForSubstitutionDataAsync E sl w =
     (Exited 0, w\<lparr>log := log w @ [Prompted SubstitutionPrompts]\<rparr>)"
  by (simp add: askForSubstitutionDataAsync_def io_defs)

lemma main_after_confirm:
  assumes s: "slug_answer E = Answered sl"
    and e: "ensureDir_failure E (path_join (CWD E) (or_else tgt sl)) = None"
    and c: "confirmTargetDirAsync E (path_join (CWD E) (or_else tgt sl))
         (w\<lparr>log := log w @ [Prompted SlugPrompt, EnsureDir (path_join (CWD E) (or_else tgt sl))]\<rparr>) =
         (Returned (), w')"
  shows "main E tgt options w =
     io_bind (askForSubstitutionDataAsync E sl)
       (\<lambda>D. main_steps E (options\<lparr>target := Some (path_join (CWD E) (or_else tgt sl))\<rparr>)
          (path_join (CWD E) (or_else tgt sl)) D) w'"
proof -
  have e': "ensureDir E (path_join (CWD E) (or_else tgt sl)) (w\<lparr>log := log w @ [Prompted SlugPrompt]\<rparr>) =
      (Returned (), w\<lparr>log := log w @ [Prompted SlugPrompt, EnsureDir (path_join (CWD E) (or_else tgt sl))]\<rparr>)"
    using ensureDir_ok [OF e, of "w\<lparr>log := log w @ [Prompted SlugPrompt]\<rparr>"] by simp
  show ?thesis
    unfolding main_unfold
    by (simp only: io_bind_Returned [where m = "askForPackageSlugAsync E tgt", OF slug_answered [OF s]]
        io_bind_Returned [where m = "ensureDir E (path_join (CWD E) (or_else tgt sl))", OF e']
        io_bind_Returned [where m = "confirmTargetDirAsync E (path_join (CWD E) (or_else tgt sl))", OF c])
qed

lemma main_confirm_exit:
  assumes s: "slug_answer E = Answered sl"
    and e: "ensureDir_failure E (path_join (CWD E) (or_else tgt sl)) = None"
    and c: "confirmTargetDirAsync E (path_join (CWD E) (or_else tgt sl))
         (w\<lparr>log := log w @ [Prompted SlugPrompt, EnsureDir (path_join (CWD E) (or_else tgt sl))]\<rparr>) =
         (Exited n, w')"
  shows "main E tgt options w = (Exited n, w')"
proof -
  have e': "ensureDir E (path_join (CWD E) (or_else tgt sl)) (w\<lparr>log := log w @ [Prompted SlugPrompt]\<rparr>) =
      (Returned (), w\<lparr>log := log w @ [Prompted SlugPrompt, EnsureDir (path_join (CWD E) (or_else tgt sl))]\<rparr>)"
    using ensureDir_ok [OF e, of "w\<lparr>log := log w @ [Prompted SlugPrompt]\<rparr>"] by simp
  show ?thesis
    unfolding main_unfold
    by (simp only: io_bind_Returned [where m = "askForPackageSlugAsync E tgt", OF slug_answered [OF s]]
        io_bind_Returned [where m = "ensureDir E (path_join (CWD E) (or_else tgt sl))", OF e']
        io_bind_Exited [where m = "confirmTargetDirAsync E (path_join (CWD E) (or_else tgt sl))", OF c])
qed

lemma substitution_prompted:
  assumes "getSubstitutionDataPrompts_failure E = None"
  shows "\<exists>r. askForSubstitutionDataAsync E sl w =
              (r, w\<lparr>log := log w @ [Prompted SubstitutionPrompts]\<rparr>)"
  using assms
  by (cases "substitution_answers E") (simp_all add: askForSubstitutionDataAsync_def io_defs)

lemma after_prompts_log:
  "\<exists>evs. log (snd (io_bind (askForSubstitutionDataAsync E sl)
                      (\<lambda>D. main_steps E options' t D) w)) = log w @ evs \<and>
         Prompted ConfirmPrompt \<notin> set evs \<and>
         (getSubstitutionDataPrompts_failure E = None \<longrightarrow>
            (\<exists>evs'. evs = Prompted SubstitutionPrompts # evs'))"
proof (cases "getSubstitutionDataPrompts_failure E")
  case (Some e)
  have "well_behaved (\<lambda>ev. ev \<noteq> Prompted ConfirmPrompt)
      (io_bind (askForSubstitutionDataAsync E sl) (\<lambda>D. main_steps E options' t D))"
    by (intro wb_bind wb_askForSubstitutionDataAsync wb_main_steps wb_acquire_template)
      (auto simp: not_prompt_def)
  then obtain evs where "log (snd (io_bind (askForSubstitutionDataAsync E sl)
                      (\<lambda>D. main_steps E options' t D) w)) = log w @ evs"
    and "list_all (\<lambda>ev. ev \<noteq> Prompted ConfirmPrompt) evs"
    unfolding well_behaved_def by blast
  with Some show ?thesis
    by (auto simp: list_all_iff)
next
  case None
  let ?w = "w\<lparr>log := log w @ [Prompted SubstitutionPrompts]\<rparr>"
  from substitution_prompted [OF None, of sl w]
  obtain r where r: "askForSubstitutionDataAsync E sl w = (r, ?w)" ..
  have "\<exists>evs'. log (snd (io_bind (askForSubstitutionDataAsync E sl)
                      (\<lambda>D. main_steps E options' t D) w)) = log ?w @ evs' \<and>
          Prompted ConfirmPrompt \<notin> set evs'"
  proof (cases r)
    case (Returned D)
    have "well_behaved (\<lambda>ev. ev \<noteq> Prompted ConfirmPrompt) (main_steps E options' t D)"
      by (intro wb_main_steps wb_acquire_template) (auto simp: not_prompt_def)
    then obtain evs' where "log (snd (main_steps E options' t D ?w)) = log ?w @ evs'"
      and "list_all (\<lambda>ev. ev \<noteq> Prompted ConfirmPrompt) evs'"
      unfolding well_behaved_def by blast
    then show ?thesis
      using r Returned by (auto simp: io_bind_def list_all_iff)
  next
    case (Exited n)
    with r show ?thesis by (simp add: io_bind_def)
  next
    case (Thrown e)
    with r show ?thesis by (simp add: io_bind_def)
  qed
  then obtain evs' where
    "log (snd (io_bind (askForSubstitutionDataAsync E sl)
                      (\<lambda>D. main_steps E options' t D) w)) = log ?w @ evs'"
    and "Prompted ConfirmPrompt \<notin> set evs'"
    by blast
  then have "log (snd (io_bind (askForSubstitutionDataAsync E sl)
                      (\<lambda>D. main_steps E options' t D) w)) =
      log w @ (Prompted SubstitutionPrompts # evs') \<and>
      Prompted ConfirmPrompt \<notin> set (Prompted SubstitutionPrompts # evs')"
    by simp
  then show ?thesis by blast
qed

text \<open>
  C5. With an empty target directory \<open>confirmTargetDirAsync\<close> returns without a prompt, and
  \<open>main\<close> goes on: its run is the run of the steps that follow (the substitution data prompts,
  then the steps after the prompts) from the state after the check, the substitution data
  prompts are shown next unless preparing them fails, and no confirmation prompt is shown at
  any point. With a target directory that is not empty and the confirmation declined, \<open>main\<close>
  ends with \<^verbatim>\<open>process.exit(0)\<close> right after the prompt: nothing is written and the render
  step is never reached.
\<close>

theorem empty_target_proceeds_declined_aborts:
  "(readdir_result E t = Inr [] \<longrightarrow>
      confirmTargetDirAsync E t w = (Returned (), w\<lparr>log := log w @ [Readdir t]\<rparr>)) \<and>
   (slug_answer E = Answered sl \<and> t = path_join (CWD E) (or_else tgt sl) \<and>
    ensureDir_failure E t = None \<and> readdir_result E t = Inr [] \<longrightarrow>
      main E tgt options w =
        io_bind (askForSubstitutionDataAsync E sl)
          (\<lambda>D. main_steps E (options\<lparr>target := Some t\<rparr>) t D)
          (w\<lparr>log := log w @ [Prompted SlugPrompt, EnsureDir t, Readdir t]\<rparr>) \<and>
      (\<exists>evs. log (snd (main E tgt options w)) =
               log w @ [Prompted SlugPrompt, EnsureDir t, Readdir t] @ evs \<and>
             Prompted ConfirmPrompt \<notin> set evs \<and>
             (getSubstitutionDataPrompts_failure E = None \<longrightarrow>
                (\<exists>evs'. evs = Prompted SubstitutionPrompts # evs')))) \<and>
   (slug_answer E = Answered sl \<and> t = path_join (CWD E) (or_else tgt sl) \<and>
    ensureDir_failure E t = None \<and> readdir_result E t = Inr (f # fs) \<and>
    confirm_answer E = Answered False \<longrightarrow>
      main E tgt options w =
        (Exited 0,
         w\<lparr>log := log w @ [Prompted SlugPrompt, EnsureDir t, Readdir t, Prompted ConfirmPrompt]\<rparr>))"
proof (intro conjI impI)
  assume "readdir_result E t = Inr []"
  then show "confirmTargetDirAsync E t w = (Returned (), w\<lparr>log := log w @ [Readdir t]\<rparr>)"
    by (rule confirm_empty)
next
  let ?t = "path_join (CWD E) (or_else tgt sl)"
  let ?w' = "w\<lparr>log := log w @ [Prompted SlugPrompt, EnsureDir ?t, Readdir ?t]\<rparr>"
  assume a: "slug_answer E = Answered sl \<and> t = path_join (CWD E) (or_else tgt sl) \<and>
    ensureDir_failure E t = None \<and> readdir_result E t = Inr []"
  then have t: "t = ?t" and s: "slug_answer E = Answered sl"
    and e: "ensureDir_failure E ?t = None" and r: "readdir_result E ?t = Inr []"
    by auto
  have c: "confirmTargetDirAsync E ?t (w\<lparr>log := log w @ [Prompted SlugPrompt, EnsureDir ?t]\<rparr>) =
      (Returned (), ?w')"
    by (simp add: confirm_empty [OF r])
  note m = main_after_confirm [OF s e c, of options]
  show "main E tgt options w =
        io_bind (askForSubstitutionDataAsync E sl)
          (\<lambda>D. main_steps E (options\<lparr>target := Some t\<rparr>) t D)
          (w\<lparr>log := log w @ [Prompted SlugPrompt, EnsureDir t, Readdir t]\<rparr>)"
    unfolding t by (rule m)
  from after_prompts_log [of E sl "options\<lparr>target := Some ?t\<rparr>" ?t ?w']
  show "\<exists>evs. log (snd (main E tgt options w)) =
               log w @ [Prompted SlugPrompt, EnsureDir t, Readdir t] @ evs \<and>
             Prompted ConfirmPrompt \<notin> set evs \<and>
             (getSubstitutionDataPrompts_failure E = None \<longrightarrow>
                (\<exists>evs'. evs = Prompted SubstitutionPrompts # evs'))"
    unfolding m t by simp
next
  let ?t = "path_join (CWD E) (or_else tgt sl)"
  assume a: "slug_answer E = Answered sl \<and> t = path_join (CWD E) (or_else tgt sl) \<and>
    ensureDir_failure E t = None \<and> readdir_result E t = Inr (f # fs) \<and>
    confirm_answer E = Answered False"
  then have t: "t = ?t" and s: "slug_answer E = Answered sl"
    and e: "ensureDir_failure E ?t = None" and r: "readdir_result E ?t = Inr (f # fs)"
    and d: "confirm_answer E = Answered False \<or> confirm_answer E = Cancelled"
    by auto
  have c: "confirmTargetDirAsync E ?t (w\<lparr>log := log w @ [Prompted SlugPrompt, EnsureDir ?t]\<rparr>) =
      (Exited 0,
       w\<lparr>log := log w @ [Prompted SlugPrompt, EnsureDir ?t, Readdir ?t, Prompted ConfirmPrompt]\<rparr>)"
    by (simp add: confirm_declined [OF r d])
  from main_confirm_exit [OF s e c, of options]
  show "main E tgt options w =
        (Exited 0,
         w\<lparr>log := log w @ [Prompted SlugPrompt, EnsureDir t, Readdir t, Prompted ConfirmPrompt]\<rparr>)"
    unfolding t .
qed

theorem empty_target_proceeds_declined_aborts_witness:
  "confirmTargetDirAsync example_env ''/work/acme-widget'' example_world =
     (Returned (), example_world\<lparr>log := log example_world @ [Readdir ''/work/acme-widget'']\<rparr>) \<and>
   main example_env None example_options example_world =
     io_bind (askForSubstitutionDataAsync example_env ''acme-widget'')
       (\<lambda>D. main_steps example_env (example_options\<lparr>target := Some ''/work/acme-widget''\<rparr>)
              ''/work/acme-widget'' D)
       (example_world\<lparr>log := log example_world @
          [Prompted SlugPrompt, EnsureDir ''/work/acme-widget'', Readdir ''/work/acme-widget'']\<rparr>) \<and>
   fst (main example_env None example_options example_world) =
     Returned (example_options\<lparr>target := Some ''/work/acme-widget''\<rparr>) \<and>
   log (snd (main example_env None example_options example_world)) =
     [Prompted SlugPrompt, EnsureDir ''/work/acme-widget'', Readdir ''/work/acme-widget'',
      Prompted SubstitutionPrompts, ConsoleLog [],
      Step ''Creating the module from template files'',
      OutputFile ''/work/acme-widget/package.json'' ''name: acme-widget, version: 0.1.0'',
      OutputFile ''/work/acme-widget/android/com/acme.widget/WidgetModule.kt''
        ''package com.acme.widget'',
      OutputFile ''/work/acme-widget/README.md'' ''# Widget'',
      StepSucceeded ''Created the module from template files'',
      Step ''Installing module dependencies'',
      InstallDependencies ''npm'' ''/work/acme-widget'',
      StepSucceeded ''Installed module dependencies'',
      Step ''Compiling TypeScript files'',
      SpawnBuild ''npm'' ''/work/acme-widget'',
      StepSucceeded ''Compiled TypeScript files'',
      Removed ''/work/acme-widget/README.md'',
      Removed ''/work/acme-widget/CHANGELOG.md'',
      CreateExampleApp ''/work/acme-widget'' ''npm'', ConsoleLog [],
      ConsoleLog ''Successfully created Expo module''] \<and>
   main (example_env\<lparr>readdir_result := (\<lambda>_. Inr [''old.txt'']), confirm_answer := Answered False\<rparr>)
       None example_options example_world =
     (Exited 0,
      example_world\<lparr>log := log example_world @
        [Prompted SlugPrompt, EnsureDir ''/work/acme-widget'', Readdir ''/work/acme-widget'',
         Prompted ConfirmPrompt]\<rparr>)"
proof -
  have t: "''/work/acme-widget'' = path_join (CWD example_env) (or_else None ''acme-widget'')"
    by (simp add: example_env_def or_else_def path_join_def normalize_def sep_def)
  from empty_target_proceeds_declined_aborts
    [where E = example_env and t = "''/work/acme-widget''" and w = example_world]
  have 1: "confirmTargetDirAsync example_env ''/work/acme-widget'' example_world =
     (Returned (), example_world\<lparr>log := log example_world @ [Readdir ''/work/acme-widget'']\<rparr>)"
    by (simp add: example_env_def)
  from t empty_target_proceeds_declined_aborts
    [where E = example_env and t = "''/work/acme-widget''" and w = example_world
       and sl = "''acme-widget''" and tgt = None and options = example_options]
  have 2: "main example_env None example_options example_world =
     io_bind (askForSubstitutionDataAsync example_env ''acme-widget'')
       (\<lambda>D. main_steps example_env (example_options\<lparr>target := Some ''/work/acme-widget''\<rparr>)
              ''/work/acme-widget'' D)
       (example_world\<lparr>log := log example_world @
          [Prompted SlugPrompt, EnsureDir ''/work/acme-widget'', Readdir ''/work/acme-widget'']\<rparr>)"
    by (simp add: example_env_def)
  have 3: "fst (main example_env None example_options example_world) =
     Returned (example_options\<lparr>target := Some ''/work/acme-widget''\<rparr>)"
    unfolding 2
    by (simp add: main_steps_def io_defs example_env_def example_options_def truthy_def
     askForSubstitutionDataAsync_def resolvePackageManager_def
     acquire_template_def newStep_def installDependencies_def spawn_build_def remove_def
     createExampleApp_def example_answers_def
     createModuleFromTemplate_def example_world_def example_template_def
      relative_path_def IGNORES_PATHS_def path_join_def normalize_def sep_def
      render_path_def render_content_def ejs_render_def delimiter_at_def readFile_def
      readFile_at_def beneath_def outputFile_def
      eval_expression_def trim_def is_space_def escape_path_def prepend_def)
  have 4: "log (snd (main example_env None example_options example_world)) =
     [Prompted SlugPrompt, EnsureDir ''/work/acme-widget'', Readdir ''/work/acme-widget'',
      Prompted SubstitutionPrompts, ConsoleLog [],
      Step ''Creating the module from template files'',
      OutputFile ''/work/acme-widget/package.json'' ''name: acme-widget, version: 0.1.0'',
      OutputFile ''/work/acme-widget/android/com/acme.widget/WidgetModule.kt''
        ''package com.acme.widget'',
      OutputFile ''/work/acme-widget/README.md'' ''# Widget'',
      StepSucceeded ''Created the module from template files'',
      Step ''Installing module dependencies'',
      InstallDependencies ''npm'' ''/work/acme-widget'',
      StepSucceeded ''Installed module dependencies'',
      Step ''Compiling TypeScript files'',
      SpawnBuild ''npm'' ''/work/acme-widget'',
      StepSucceeded ''Compiled TypeScript files'',
      Removed ''/work/acme-widget/README.md'',
      Removed ''/work/acme-widget/CHANGELOG.md'',
      CreateExampleApp ''/work/acme-widget'' ''npm'', ConsoleLog [],
      ConsoleLog ''Successfully created Expo module'']"
    unfolding 2
    by (simp add: main_steps_def io_defs example_env_def example_options_def truthy_def
     askForSubstitutionDataAsync_def resolvePackageManager_def
     acquire_template_def newStep_def installDependencies_def spawn_build_def remove_def
     createExampleApp_def example_answers_def
     createModuleFromTemplate_def example_world_def example_template_def
      relative_path_def IGNORES_PATHS_def path_join_def normalize_def sep_def
      render_path_def render_content_def ejs_render_def delimiter_at_def readFile_def
      readFile_at_def beneath_def outputFile_def
      eval_expression_def trim_def is_space_def escape_path_def prepend_def)
  from t empty_target_proceeds_declined_aborts
    [where E = "example_env\<lparr>readdir_result := (\<lambda>_. Inr [''old.txt'']), confirm_answer := Answered False\<rparr>"
       and t = "''/work/acme-widget''" and w = example_world and sl = "''acme-widget''" and tgt = None
       and f = "''old.txt''" and fs = "[]" and options = example_options]
  have 5: "main (example_env\<lparr>readdir_result := (\<lambda>_. Inr [''old.txt'']), confirm_answer := Answered False\<rparr>)
       None example_options example_world =
     (Exited 0,
      example_world\<lparr>log := log example_world @
        [Prompted SlugPrompt, EnsureDir ''/work/acme-widget'', Readdir ''/work/acme-widget'',
         Prompted ConfirmPrompt]\<rparr>)"
    by (simp add: example_env_def)
  from 1 2 3 4 5 show ?thesis by (intro conjI)
qed

text \<open>
  C6. Cancelling the slug prompt, the confirmation prompt or the substitution data prompts ends
  the run with the exit status 0. Every \<^verbatim>\<open>process.exit\<close> of a run has the status 0, so the
  exit status of the process is 0 when \<open>main\<close> returns or exits, and not 0 exactly when the run
  ends with an error that nothing handles.
\<close>

theorem cancel_exits_zero:
  "(slug_answer E = Cancelled \<longrightarrow> fst (main E tgt options w) = Exited 0) \<and>
   (slug_answer E = Answered sl \<and> t = path_join (CWD E) (or_else tgt sl) \<and>
    ensureDir_failure E t = None \<and> readdir_result E t = Inr (f # fs) \<and>
    confirm_answer E = Cancelled \<longrightarrow> fst (main E tgt options w) = Exited 0) \<and>
   (slug_answer E = Answered sl \<and> t = path_join (CWD E) (or_else tgt sl) \<and>
    ensureDir_failure E t = None \<and> readdir_result E t = Inr fs' \<and>
    (fs' = [] \<or> confirm_answer E = Answered True) \<and>
    getSubstitutionDataPrompts_failure E = None \<and> substitution_answers E = Cancelled \<longrightarrow>
      fst (main E tgt options w) = Exited 0) \<and>
   (\<forall>n. fst (main E tgt options w) = Exited n \<longrightarrow> n = 0) \<and>
   (exit_status (fst (main E tgt options w)) \<noteq> 0 \<longleftrightarrow>
      (\<exists>e. fst (main E tgt options w) = Thrown e))"
proof (intro conjI impI)
  assume c: "slug_answer E = Cancelled"
  show "fst (main E tgt options w) = Exited 0"
    unfolding main_unfold
    by (simp only: io_bind_Exited [where m = "askForPackageSlugAsync E tgt", OF slug_cancelled [OF c]]
        fst_conv)
next
  let ?t = "path_join (CWD E) (or_else tgt sl)"
  assume a: "slug_answer E = Answered sl \<and> t = path_join (CWD E) (or_else tgt sl) \<and>
    ensureDir_failure E t = None \<and> readdir_result E t = Inr (f # fs) \<and>
    confirm_answer E = Cancelled"
  then have s: "slug_answer E = Answered sl"
    and e: "ensureDir_failure E ?t = None" and r: "readdir_result E ?t = Inr (f # fs)"
    and d: "confirm_answer E = Answered False \<or> confirm_answer E = Cancelled"
    by auto
  have c: "confirmTargetDirAsync E ?t (w\<lparr>log := log w @ [Prompted SlugPrompt, EnsureDir ?t]\<rparr>) =
      (Exited 0,
       w\<lparr>log := log w @ [Prompted SlugPrompt, EnsureDir ?t, Readdir ?t, Prompted ConfirmPrompt]\<rparr>)"
    by (simp add: confirm_declined [OF r d])
  from main_confirm_exit [OF s e c, of options]
  show "fst (main E tgt options w) = Exited 0" by simp
next
  let ?t = "path_join (CWD E) (or_else tgt sl)"
  assume a: "slug_answer E = Answered sl \<and> t = path_join (CWD E) (or_else tgt sl) \<and>
    ensureDir_failure E t = None \<and> readdir_result E t = Inr fs' \<and>
    (fs' = [] \<or> confirm_answer E = Answered True) \<and>
    getSubstitutionDataPrompts_failure E = None \<and> substitution_answers E = Cancelled"
  then have s: "slug_answer E = Answered sl"
    and e: "ensureDir_failure E ?t = None" and r: "readdir_result E ?t = Inr fs'"
    and d: "fs' = [] \<or> confirm_answer E = Answered True"
    and g: "getSubstitutionDataPrompts_failure E = None" and x: "substitution_answers E = Cancelled"
    by auto
  have "\<exists>w'. confirmTargetDirAsync E ?t (w\<lparr>log := log w @ [Prompted SlugPrompt, EnsureDir ?t]\<rparr>) =
      (Returned (), w')"
  proof (cases fs')
    case Nil
    with r show ?thesis by (simp add: confirm_empty)
  next
    case (Cons y ys)
    with r d show ?thesis by (simp add: confirm_accepted)
  qed
  then obtain w' where
    c: "confirmTargetDirAsync E ?t (w\<lparr>log := log w @ [Prompted SlugPrompt, EnsureDir ?t]\<rparr>) =
      (Returned (), w')" ..
  note m = main_after_confirm [OF s e c, of options]
  show "fst (main E tgt options w) = Exited 0"
    unfolding m
    by (simp only: io_bind_Exited [where m = "askForSubstitutionDataAsync E sl",
          OF substitution_cancelled [OF g x]] fst_conv)
next
  from wb_main [of E tgt options]
  show z: "\<forall>n. fst (main E tgt options w) = Exited n \<longrightarrow> n = 0"
    unfolding well_behaved_def by blast
  show "exit_status (fst (main E tgt options w)) \<noteq> 0 \<longleftrightarrow>
      (\<exists>e. fst (main E tgt options w) = Thrown e)"
    using z by (cases "fst (main E tgt options w)") (simp_all add: exit_status_def)
qed

theorem cancel_exits_zero_witness:
  "fst (main (example_env\<lparr>slug_answer := Cancelled\<rparr>) None example_options example_world) = Exited 0 \<and>
   fst (main (example_env\<lparr>readdir_result := (\<lambda>_. Inr [''old.txt'']), confirm_answer := Cancelled\<rparr>)
          None example_options example_world) = Exited 0 \<and>
   fst (main (example_env\<lparr>substitution_answers := Cancelled\<rparr>) None example_options example_world) =
     Exited 0 \<and>
   exit_status
     (fst (main (example_env\<lparr>slug_answer := Cancelled\<rparr>) None example_options example_world)) = 0"
proof -
  have t: "''/work/acme-widget'' = path_join (CWD example_env) (or_else None ''acme-widget'')"
    by (simp add: example_env_def or_else_def path_join_def normalize_def sep_def)
  from cancel_exits_zero
    [where E = "example_env\<lparr>slug_answer := Cancelled\<rparr>" and tgt = None
       and options = example_options and w = example_world]
  have 1: "fst (main (example_env\<lparr>slug_answer := Cancelled\<rparr>) None example_options example_world) =
      Exited 0"
    by (simp add: example_env_def)
  from t cancel_exits_zero
    [where E = "example_env\<lparr>readdir_result := (\<lambda>_. Inr [''old.txt'']), confirm_answer := Cancelled\<rparr>"
       and tgt = None and options = example_options and w = example_world and sl = "''acme-widget''"
       and t = "''/work/acme-widget''" and f = "''old.txt''" and fs = "[]"]
  have 2: "fst (main (example_env\<lparr>readdir_result := (\<lambda>_. Inr [''old.txt'']), confirm_answer := Cancelled\<rparr>)
          None example_options example_world) = Exited 0"
    by (simp add: example_env_def)
  from t cancel_exits_zero
    [where E = "example_env\<lparr>substitution_answers := Cancelled\<rparr>"
       and tgt = None and options = example_options and w = example_world and sl = "''acme-widget''"
       and t = "''/work/acme-widget''" and fs' = "[]"]
  have 3: "fst (main (example_env\<lparr>substitution_answers := Cancelled\<rparr>) None example_options
      example_world) = Exited 0"
    by (simp add: example_env_def)
  from 1 2 3 show ?thesis by (simp add: exit_status_def)
qed

lemma io_bind_emit: "io_bind (emit ev) f w = f () (w\<lparr>log := log w @ [ev]\<rparr>)"
  by (simp add: io_bind_def emit_def)

lemma getNpmTarballUrl_ok:
  "npm_view_result E (packageName @ ''@'' @ v) = Inr stdout \<Longrightarrow>
   getNpmTarballUrl E packageName v w =
     (Returned (trim stdout), w\<lparr>log := log w @ [NpmView (packageName @ ''@'' @ v)]\<rparr>)"
  by (simp add: getNpmTarballUrl_def io_defs)

lemma downloadTarball_ok:
  "downloadTarball_result E url = Inr T \<Longrightarrow>
   downloadTarball E url dir w =
     (Returned (),
      w\<lparr>dirs := (dirs w)(path_join dir ''package'' \<mapsto> T),
        log := log w @ [DownloadTarball url dir]\<rparr>)"
  by (simp add: downloadTarball_def io_defs)

lemma downloadPackageAsync_ok:
  assumes n: "npm_view_result E (''expo-module-template'' @ ''@'' @
                (if EXPO_BETA E then ''next'' else ''latest'')) = Inr stdout"
    and d: "downloadTarball_result E (trim stdout) = Inr T"
  shows "downloadPackageAsync E targetDir w =
     (Returned (path_join targetDir ''package''),
      w\<lparr>dirs := (dirs w)(path_join targetDir ''package'' \<mapsto> T),
        log := log w @
          [Step ''Downloading module template from npm'',
           NpmView (''expo-module-template'' @ ''@'' @ (if EXPO_BETA E then ''next'' else ''latest'')),
           DownloadTarball (trim stdout) targetDir,
           StepSucceeded ''Downloaded module template from npm'']\<rparr>)"
  unfolding downloadPackageAsync_def newStep_def
  by (simp only: io_bind_emit
      io_bind_Returned [where m = "getNpmTarballUrl E ''expo-module-template''
         (if EXPO_BETA E then ''next'' else ''latest'')", OF getNpmTarballUrl_ok [OF n]]
      io_bind_Returned [where m = "downloadTarball E (trim stdout) targetDir", OF downloadTarball_ok [OF d]]
      io_return_def)
    simp

text \<open>
  C8. With a local source path given (\<^verbatim>\<open>--source\<close>, a non-empty string) the template root is
  that path joined with the working directory, and the run neither asks the registry nor
  downloads. Otherwise the tarball URL of \<^verbatim>\<open>expo-module-template\<close> at \<^verbatim>\<open>next\<close> (when
  \<^verbatim>\<open>EXPO_BETA\<close> is set) or \<^verbatim>\<open>latest\<close> is asked for, the tarball is extracted beneath the target
  directory, and the template root is the directory \<^verbatim>\<open>package\<close> under the target directory.
\<close>

theorem template_acquisition:
  "(source options = Some s \<and> s \<noteq> [] \<longrightarrow>
      acquire_template E options targetDir w = (Returned (path_join (CWD E) s), w)) \<and>
   (source options = Some s \<and> s \<noteq> [] \<longrightarrow>
      (\<exists>evs. log (snd (main E tgt options w)) = log w @ evs \<and> list_all no_download evs)) \<and>
   (\<not> truthy (source options) \<and>
    v = (if EXPO_BETA E then ''next'' else ''latest'') \<and>
    npm_view_result E (''expo-module-template@'' @ v) = Inr stdout \<and>
    downloadTarball_result E (trim stdout) = Inr T \<longrightarrow>
      acquire_template E options targetDir w =
        (Returned (path_join targetDir ''package''),
         w\<lparr>dirs := (dirs w)(path_join targetDir ''package'' \<mapsto> T),
           log := log w @
             [Step ''Downloading module template from npm'',
              NpmView (''expo-module-template@'' @ v),
              DownloadTarball (trim stdout) targetDir,
              StepSucceeded ''Downloaded module template from npm'']\<rparr>))"
proof (intro conjI impI)
  assume "source options = Some s \<and> s \<noteq> []"
  then show "acquire_template E options targetDir w = (Returned (path_join (CWD E) s), w)"
    by (simp add: acquire_template_def io_return_def)
next
  assume "source options = Some s \<and> s \<noteq> []"
  then have "well_behaved no_download (main E tgt options)"
    by (intro wb_main_source [of options s]) simp_all
  then show "\<exists>evs. log (snd (main E tgt options w)) = log w @ evs \<and> list_all no_download evs"
    unfolding well_behaved_def by blast
next
  assume a: "\<not> truthy (source options) \<and>
    v = (if EXPO_BETA E then ''next'' else ''latest'') \<and>
    npm_view_result E (''expo-module-template@'' @ v) = Inr stdout \<and>
    downloadTarball_result E (trim stdout) = Inr T"
  then have v: "v = (if EXPO_BETA E then ''next'' else ''latest'')"
    and n': "npm_view_result E (''expo-module-template@'' @ v) = Inr stdout"
    and d: "downloadTarball_result E (trim stdout) = Inr T"
    by blast+
  have k: "''expo-module-template'' @ ''@'' @ v = ''expo-module-template@'' @ v" by simp
  have n: "npm_view_result E (''expo-module-template'' @ ''@'' @
                (if EXPO_BETA E then ''next'' else ''latest'')) = Inr stdout"
    using n' v by simp
  from a have "acquire_template E options targetDir = downloadPackageAsync E targetDir"
    by (auto simp: acquire_template_def truthy_def split: option.splits)
  with downloadPackageAsync_ok [OF n d, of targetDir w]
  show "acquire_template E options targetDir w =
        (Returned (path_join targetDir ''package''),
         w\<lparr>dirs := (dirs w)(path_join targetDir ''package'' \<mapsto> T),
           log := log w @
             [Step ''Downloading module template from npm'',
              NpmView (''expo-module-template@'' @ v),
              DownloadTarball (trim stdout) targetDir,
              StepSucceeded ''Downloaded module template from npm'']\<rparr>)"
    unfolding k [symmetric] v by simp
qed

theorem template_acquisition_witness:
  "acquire_template example_env example_options ''/work/acme-widget'' example_world =
     (Returned ''/work/template'', example_world) \<and>
   acquire_template example_env (example_options\<lparr>source := None\<rparr>) ''/work/acme-widget''
       example_world =
     (Returned ''/work/acme-widget/package'',
      example_world
        \<lparr>dirs := (dirs example_world)(''/work/acme-widget/package'' \<mapsto> example_template),
         log := log example_world @
           [Step ''Downloading module template from npm'',
            NpmView ''expo-module-template@latest'',
            DownloadTarball ''https://registry/expo-module-template.tgz'' ''/work/acme-widget'',
            StepSucceeded ''Downloaded module template from npm'']\<rparr>)"
proof -
  have j: "path_join ''/work'' ''template'' = ''/work/template''"
      "path_join ''/work/acme-widget'' ''package'' = ''/work/acme-widget/package''"
    by (simp_all add: path_join_def normalize_def sep_def)
  have tr: "trim (''https://registry/expo-module-template.tgz'' @ [CHR 0x0A]) =
      ''https://registry/expo-module-template.tgz''"
    by (simp add: trim_def is_space_def)
  from template_acquisition
    [where options = example_options and s = "''template''" and E = example_env
       and targetDir = "''/work/acme-widget''" and w = example_world]
  have 1: "acquire_template example_env example_options ''/work/acme-widget'' example_world =
     (Returned ''/work/template'', example_world)"
    by (simp add: example_options_def example_env_def j)
  from template_acquisition
    [where options = "example_options\<lparr>source := None\<rparr>" and E = example_env
       and targetDir = "''/work/acme-widget''" and w = example_world and v = "''latest''"
       and stdout = "''https://registry/expo-module-template.tgz'' @ [CHR 0x0A]"
       and T = example_template]
  have 2: "acquire_template example_env (example_options\<lparr>source := None\<rparr>) ''/work/acme-widget''
       example_world =
     (Returned ''/work/acme-widget/package'',
      example_world
        \<lparr>dirs := (dirs example_world)(''/work/acme-widget/package'' \<mapsto> example_template),
         log := log example_world @
           [Step ''Downloading module template from npm'',
            NpmView ''expo-module-template@latest'',
            DownloadTarball ''https://registry/expo-module-template.tgz'' ''/work/acme-widget'',
            StepSucceeded ''Downloaded module template from npm'']\<rparr>)"
    unfolding tr by (simp add: example_options_def example_env_def j truthy_def tr)
  from 1 2 show ?thesis by (rule conjI)
qed

end
